theory Spec2Isabelle
  imports Complex_Main "HOL-Library.Char_ord" "HOL-Library.List_Lexorder"
begin

section \<open>Spreadsheet frames\<close>

text \<open>
  The three applications (3app.py, 6app.py, 7app.py) read a worksheet into a pandas
  DataFrame and work on its columns by label. A frame is modelled as the list of its
  column labels together with its rows. A row has one typed cell for every label that
  any of the three programs looks at; a cell holds \<open>None\<close> for a missing value (NaN).
  A cell whose label is not among the frame's columns is never read by the model.

  Text cells are strings, numeric cells are exact rationals: the binary rounding of
  float64 is outside the model, so a quantity such as 2.5 is the rational 5/2.
\<close>

record row =
  StyleID :: "string option"
  Style :: "string option"
  Item_Description :: "string option"
  Description :: "string option"
  Composition :: "string option"
  Material_Composition :: "string option"
  Unit_Price :: "rat option"
  USD_FOB :: "rat option"
  USD_Fob :: "rat option"
  Qty :: "rat option"
  Total_Qty :: "rat option"
  Amount :: "rat option"
  Total_Value :: "rat option"
  Fabric_Type :: "string option"
  HS_Code :: "string option"
  Country_of_Origin :: "string option"

definition empty_row :: row where
  "empty_row = \<lparr>StyleID = None, Style = None, Item_Description = None, Description = None,
     Composition = None, Material_Composition = None, Unit_Price = None, USD_FOB = None,
     USD_Fob = None, Qty = None, Total_Qty = None, Amount = None, Total_Value = None,
     Fabric_Type = None, HS_Code = None, Country_of_Origin = None\<rparr>"

record frame =
  columns :: "string list"
  rows :: "row list"

datatype error = KeyError "string list" | ValueError string

section \<open>Python number formatting\<close>

text \<open>\<open>int(x)\<close> truncates towards zero.\<close>

definition py_int :: "rat \<Rightarrow> int" where
  "py_int x = (if 0 \<le> x then \<lfloor>x\<rfloor> else \<lceil>x\<rceil>)"

text \<open>Rounding to the nearest integer, ties to the even neighbour, as the fixed-point
  format specifications round.\<close>

definition round_half_even :: "rat \<Rightarrow> int" where
  "round_half_even x =
     (let f = \<lfloor>x\<rfloor>; d = x - of_int f
      in if d < 1/2 then f else if 1/2 < d then f + 1 else if even f then f else f + 1)"

definition digit_char :: "nat \<Rightarrow> char" where
  "digit_char d = char_of (48 + d)"

function str_nat :: "nat \<Rightarrow> string" where
  "str_nat n = (if n < 10 then [digit_char n] else str_nat (n div 10) @ [digit_char (n mod 10)])"
  by pat_completeness auto
termination
  by (relation "measure id") auto

declare str_nat.simps [simp del]

definition pad2 :: "nat \<Rightarrow> string" where
  "pad2 n = [digit_char (n div 10 mod 10), digit_char (n mod 10)]"

definition pad3 :: "nat \<Rightarrow> string" where
  "pad3 n = [digit_char (n div 100 mod 10), digit_char (n div 10 mod 10), digit_char (n mod 10)]"

text \<open>The \<open>,\<close> option of a format specification: a comma before every group of three
  digits, counted from the right.\<close>

function grouped_nat :: "nat \<Rightarrow> string" where
  "grouped_nat n =
     (if n < 1000 then str_nat n else grouped_nat (n div 1000) @ '','' @ pad3 (n mod 1000))"
  by pat_completeness auto
termination
  by (relation "measure id") auto

declare grouped_nat.simps [simp del]

definition sign_str :: "bool \<Rightarrow> string" where
  "sign_str neg = (if neg then ''-'' else '''')"

text \<open>\<open>f"{n:,}"\<close> for an integer.\<close>

definition fmt_int_grouped :: "int \<Rightarrow> string" where
  "fmt_int_grouped n = sign_str (n < 0) @ grouped_nat (nat \<bar>n\<bar>)"

text \<open>The value in hundredths, rounded.\<close>

definition hundredths :: "rat \<Rightarrow> nat" where
  "hundredths x = nat (round_half_even (\<bar>x\<bar> * 100))"

text \<open>\<open>f"{x:.2f}"\<close> and \<open>f"{x:,.2f}"\<close> for a number.\<close>

definition fmt_fixed2 :: "rat \<Rightarrow> string" where
  "fmt_fixed2 x =
     sign_str (x < 0) @ str_nat (hundredths x div 100) @ ''.'' @ pad2 (hundredths x mod 100)"

definition fmt_grouped_fixed2 :: "rat \<Rightarrow> string" where
  "fmt_grouped_fixed2 x =
     sign_str (x < 0) @ grouped_nat (hundredths x div 100) @ ''.'' @ pad2 (hundredths x mod 100)"

text \<open>\<open>float(v)\<close> of a cell followed by \<open>:.2f\<close>: a missing value prints as \<open>nan\<close>.\<close>

definition fmt_float2 :: "rat option \<Rightarrow> string" where
  "fmt_float2 v = (case v of None \<Rightarrow> ''nan'' | Some x \<Rightarrow> fmt_fixed2 x)"

text \<open>\<open>str(v)\<close> and \<open>{v}\<close> of a text cell.\<close>

definition py_str :: "string option \<Rightarrow> string" where
  "py_str v = (case v of None \<Rightarrow> ''nan'' | Some s \<Rightarrow> s)"

section \<open>Python string operations\<close>

definition upper_char :: "char \<Rightarrow> char" where
  "upper_char c =
     (if CHR ''a'' \<le> c \<and> c \<le> CHR ''z'' then char_of (of_char c - (32::nat)) else c)"

definition upper :: "string \<Rightarrow> string" where
  "upper s = map upper_char s"

definition startswith :: "string \<Rightarrow> string \<Rightarrow> bool" where
  "startswith s p = (take (length p) s = p)"

text \<open>\<open>p in s\<close>.\<close>

fun contains :: "string \<Rightarrow> string \<Rightarrow> bool" where
  "contains [] p = (p = [])"
| "contains (c # cs) p = (startswith (c # cs) p \<or> contains cs p)"

text \<open>\<open>s.replace(old, new)\<close>: the occurrences of \<open>old\<close> are taken from left to right and do
  not overlap; an empty \<open>old\<close> matches before every character and at the end.\<close>

function replace_from :: "string \<Rightarrow> string \<Rightarrow> string \<Rightarrow> string" where
  "replace_from old new s =
     (if s = [] then []
      else if old \<noteq> [] \<and> startswith s old
        then new @ replace_from old new (drop (length old) s)
        else hd s # replace_from old new (tl s))"
  by pat_completeness auto
termination
  by (relation "measure (\<lambda>(old, new, s). length s)") auto

declare replace_from.simps [simp del]

definition replace :: "string \<Rightarrow> string \<Rightarrow> string \<Rightarrow> string" where
  "replace s old new =
     (if old = [] then concat (map (\<lambda>c. new @ [c]) s) @ new else replace_from old new s)"

section \<open>pandas: grouping and aggregation\<close>

text \<open>\<open>groupby(key)\<close> with its defaults (\<open>sort=True\<close>, \<open>dropna=True\<close>): rows whose key is
  missing belong to no group, and the groups come in ascending order of the key.\<close>

definition group_keys :: "string option list \<Rightarrow> string list" where
  "group_keys ks = sort (remdups (List.map_filter (\<lambda>k. k) ks))"

text \<open>The aggregation \<open>'first'\<close>: the first value of the group that is not missing.\<close>

fun first_valid :: "'a option list \<Rightarrow> 'a option" where
  "first_valid [] = None"
| "first_valid (None # vs) = first_valid vs"
| "first_valid (Some v # vs) = Some v"

text \<open>The aggregation \<open>'sum'\<close>: missing values are skipped, an empty sum is 0. The model
  adds exactly where float64 rounds every addition; the two agree on the sums that
  float64 computes without rounding, such as sums of whole numbers. No statement below
  regroups a sum.\<close>

definition nansum :: "rat option list \<Rightarrow> rat" where
  "nansum vs = sum_list (map (\<lambda>v. case v of None \<Rightarrow> 0 | Some x \<Rightarrow> x) vs)"

section \<open>6app.py and 7app.py: process_excel_data\<close>

text \<open>The function has the same text in both files. \<open>dropna(subset=['Style'])\<close> removes the
  rows whose Style is missing; a label that the frame does not have is a KeyError.\<close>

definition dropna_Style :: "row list \<Rightarrow> row list" where
  "dropna_Style rs = filter (\<lambda>r. Style r \<noteq> None) rs"

definition agg_columns_7 :: "string list" where
  "agg_columns_7 = [''Description'', ''Composition'', ''USD Fob$'', ''Total Qty'', ''Total Value'']"

definition agg_group_7 :: "row list \<Rightarrow> string \<Rightarrow> row" where
  "agg_group_7 rs k =
     (let g = filter (\<lambda>r. Style r = Some k) rs
      in empty_row\<lparr>Style := Some k,
           Description := first_valid (map Description g),
           Composition := first_valid (map Composition g),
           USD_Fob := first_valid (map USD_Fob g),
           Total_Qty := Some (nansum (map Total_Qty g)),
           Total_Value := Some (nansum (map Total_Value g))\<rparr>)"

definition process_excel_data_7 :: "frame \<Rightarrow> error + frame" where
  "process_excel_data_7 df =
     (if ''Style'' \<notin> set (columns df) then Inl (KeyError [''Style''])
      else if filter (\<lambda>c. c \<notin> set (columns df)) agg_columns_7 \<noteq> []
        then Inl (KeyError (filter (\<lambda>c. c \<notin> set (columns df)) agg_columns_7))
      else
        let df_clean = dropna_Style (rows df)
        in Inr \<lparr>columns = ''Style'' # agg_columns_7,
                rows = map (agg_group_7 df_clean) (group_keys (map Style df_clean))\<rparr>)"

section \<open>6app.py: generate_proforma_invoice\<close>

text \<open>The PDF is described by the data handed to the layout engine: the header table,
  the main table and the paragraph under it. The static signature table and all styling
  are left out.\<close>

record pdf6 =
  header_data6 :: "(string \<times> string) list"
  table_data6 :: "string list list"
  total_words6 :: string

definition table_header :: "string list" where
  "table_header =
     [''STYLE NO.'', ''ITEM DESCRIPTION'',
      ''FABRIC TYPE'' @ [CHR 0x0A] @ ''KNITTED /'' @ [CHR 0x0A] @ ''WOVEN'',
      ''H.S NO'' @ [CHR 0x0A] @ ''(8digit)'',
      ''COMPOSITION OF'' @ [CHR 0x0A] @ ''MATERIAL'',
      ''COUNTRY OF'' @ [CHR 0x0A] @ ''ORIGIN'', ''QTY'',
      ''UNIT PRICE'' @ [CHR 0x0A] @ ''FOB'', ''AMOUNT'']"

definition header_data_6 :: "string \<Rightarrow> string \<Rightarrow> string \<Rightarrow> (string \<times> string) list" where
  "header_data_6 pi_number date_str cpo_number =
     [(''Supplier Name No. & date of PI'', pi_number @ '' Dt. '' @ date_str),
      (''SAR APPARELS INDIA PVT.LTD.'', []),
      (''ADDRESS : 6, Picaso Bithi, KOLKATA - 700017.'',
         ''Landmark order Reference: '' @ cpo_number),
      (''PHONE : 9874173373'', ''Buyer Name: LANDMARK GROUP''),
      (''FAX : N.A.'', ''Brand Name: Juniors''),
      (''Consignee:-'', ''Payment Term: T/T''),
      (''RNA Resources Group Ltd- Landmark (Babyshop),'', []),
      (''P O Box 25030, Dubai, UAE,'', ''Bank Details (Including Swift/IBAN)''),
      (''Tel: 00971 4 8095500, Fax: 00971 4 8095555/66'', '':- SAR APPARELS INDIA PVT.LTD''),
      ([], '':- 2112819952''),
      ([], ''BANK'' @ [CHR 0x27] @ ''S NAME :- KOTAK MAHINDRA BANK LTD''),
      ([], ''BANK ADDRESS :- 2 BRABOURNE ROAD, GOVIND BHAVAN, GROUND FLOOR,''),
      ([], ''KOLKATA-700001''),
      ([], '':- KKBKINBBCPC''),
      ([], ''BANK CODE :- 0323''),
      (''Loading Country: India'', ''L/C Advicing Bank (If Payment term LC Applicable )''),
      (''Port of loading: Mumbai'', []),
      (''Agreed Shipment Date: 07-02-2025'', []),
      ([], []),
      (''REMARKS if ANY:-'', []),
      (''Description of goods: Value Packs'', []),
      (''CURRENCY: USD'', [])]"

text \<open>One iteration of the loop over the aggregated rows. After the aggregation the two
  sums are never missing, so \<open>int\<close> and \<open>float\<close> of a missing sum are not reached.\<close>

definition qty_6 :: "row \<Rightarrow> int" where
  "qty_6 r = py_int (case Total_Qty r of None \<Rightarrow> 0 | Some q \<Rightarrow> q)"

definition amount_6 :: "row \<Rightarrow> rat" where
  "amount_6 r = (case Total_Value r of None \<Rightarrow> 0 | Some a \<Rightarrow> a)"

definition table_row_6 :: "row \<Rightarrow> string list" where
  "table_row_6 r =
     [py_str (Style r), py_str (Description r), ''KNITTED'', ''61112000'',
      py_str (Composition r), ''India'',
      fmt_int_grouped (qty_6 r), fmt_float2 (USD_Fob r), fmt_fixed2 (amount_6 r)]"

definition total_qty_6 :: "row list \<Rightarrow> int" where
  "total_qty_6 rs = sum_list (map qty_6 rs)"

definition total_amount_6 :: "row list \<Rightarrow> rat" where
  "total_amount_6 rs = sum_list (map amount_6 rs)"

definition totals_row_6 :: "row list \<Rightarrow> string list" where
  "totals_row_6 rs =
     [[], [], [], [], [], ''Total'', fmt_int_grouped (total_qty_6 rs), [],
      fmt_fixed2 (total_amount_6 rs) @ ''USD'']"

definition number_to_words :: "rat \<Rightarrow> string" where
  "number_to_words amount = ''US DOLLAR '' @ fmt_grouped_fixed2 amount"

definition generate_proforma_invoice_6 ::
    "frame \<Rightarrow> string \<Rightarrow> string \<Rightarrow> string \<Rightarrow> error + pdf6" where
  "generate_proforma_invoice_6 df pi_number date_str cpo_number =
     (case process_excel_data_7 df of
        Inl e \<Rightarrow> Inl e
      | Inr processed_df \<Rightarrow>
          Inr \<lparr>header_data6 = header_data_6 pi_number date_str cpo_number,
               table_data6 = table_header # map table_row_6 (rows processed_df)
                              @ [totals_row_6 (rows processed_df)],
               total_words6 = ''TOTAL '' @ upper (number_to_words
                                (total_amount_6 (rows processed_df))) @ '' DOLLARS''\<rparr>)"

section \<open>7app.py: generate_html_invoice\<close>

text \<open>The page is one string built from a fixed template. The model keeps the places
  where the template interpolates a value: the two header cells, the cells of every
  table row, the cells of the totals row, and the line of the total in words. The
  totals are the sums of the aggregated columns. The total quantity is printed the way
  the sum of an integer column prints (a float64 column would add a fractional part to
  the same digits).\<close>

record html_invoice =
  html_pi_date :: string
  html_order_reference :: string
  html_table_rows :: "string list list"
  html_total_row :: "string list"
  html_total_words :: string

definition table_row_7 :: "row \<Rightarrow> string list" where
  "table_row_7 r =
     [py_str (Style r), py_str (Description r), ''KNITTED'', ''61112000'',
      py_str (Composition r), ''India'',
      fmt_int_grouped (qty_6 r), fmt_float2 (USD_Fob r), fmt_fixed2 (amount_6 r)]"

definition total_qty_7 :: "row list \<Rightarrow> rat" where
  "total_qty_7 rs = nansum (map Total_Qty rs)"

definition total_amount_7 :: "row list \<Rightarrow> rat" where
  "total_amount_7 rs = nansum (map Total_Value rs)"

definition generate_html_invoice ::
    "frame \<Rightarrow> string \<Rightarrow> string \<Rightarrow> string \<Rightarrow> error + html_invoice" where
  "generate_html_invoice df pi_number date_str cpo_number =
     (case process_excel_data_7 df of
        Inl e \<Rightarrow> Inl e
      | Inr processed_df \<Rightarrow>
          Inr \<lparr>html_pi_date = pi_number @ '' Dt. '' @ date_str,
               html_order_reference = cpo_number,
               html_table_rows = map table_row_7 (rows processed_df),
               html_total_row =
                 [''Total'', fmt_int_grouped (py_int (total_qty_7 (rows processed_df))), [],
                  fmt_fixed2 (total_amount_7 (rows processed_df)) @ ''USD''],
               html_total_words =
                 ''TOTAL US DOLLAR '' @ fmt_grouped_fixed2 (total_amount_7 (rows processed_df))
                   @ '' DOLLARS''\<rparr>)"

section \<open>3app.py: process_excel_data\<close>

text \<open>The columns of the worksheet are renamed to the labels the composer expects, then
  the rows are grouped by StyleID. When a label and the label it is renamed to are both
  present, the frame gets two columns under one label and the grouping can no longer
  select a column by that label; the model stops the grouping branch there with the
  ValueError of that selection. Without a style column nothing is selected: the function
  shows its message and returns the renamed frame. The labels of the given frame are
  taken to be distinct.

  The second component of the result lists the messages shown with \<open>st.error\<close>.\<close>

definition column_mapping :: "(string \<times> string) list" where
  "column_mapping =
     [(''Style'', ''StyleID''),
      (''Description'', ''Item Description''),
      (''Material Composition'', ''Composition''),
      (''USD FOB$'', ''Unit Price''),
      (''Total Qty'', ''Qty''),
      (''Total Value'', ''Amount'')]"

definition rename_columns :: "string list \<Rightarrow> string list" where
  "rename_columns cs =
     map (\<lambda>c. case map_of column_mapping c of None \<Rightarrow> c | Some new_col \<Rightarrow> new_col) cs"

definition rename_row :: "string list \<Rightarrow> row \<Rightarrow> row" where
  "rename_row cs r =
     r\<lparr>StyleID := (if ''Style'' \<in> set cs then Style r else StyleID r),
       Item_Description :=
         (if ''Description'' \<in> set cs then Description r else Item_Description r),
       Composition :=
         (if ''Material Composition'' \<in> set cs then Material_Composition r else Composition r),
       Unit_Price := (if ''USD FOB$'' \<in> set cs then USD_FOB r else Unit_Price r),
       Qty := (if ''Total Qty'' \<in> set cs then Total_Qty r else Qty r),
       Amount := (if ''Total Value'' \<in> set cs then Total_Value r else Amount r)\<rparr>"

definition label_clash :: "string list \<Rightarrow> bool" where
  "label_clash cs =
     list_ex (\<lambda>(old_col, new_col). old_col \<in> set cs \<and> new_col \<in> set cs) column_mapping"

definition agg_functions :: "string list" where
  "agg_functions = [''Item Description'', ''Composition'', ''Unit Price'', ''Qty'', ''Amount'']"

definition required_columns :: "string list" where
  "required_columns = [''Fabric Type'', ''HS Code'', ''Country of Origin'']"

text \<open>The aggregated row of one style. Only the columns that exist are aggregated; the
  three required columns are never among the aggregated ones, so they always receive
  their default values.\<close>

definition agg_group_3 :: "string list \<Rightarrow> row list \<Rightarrow> string \<Rightarrow> row" where
  "agg_group_3 cs rs k =
     (let g = filter (\<lambda>r. StyleID r = Some k) rs
      in empty_row\<lparr>StyleID := Some k,
           Item_Description :=
             (if ''Item Description'' \<in> set cs then first_valid (map Item_Description g)
              else None),
           Composition :=
             (if ''Composition'' \<in> set cs then first_valid (map Composition g) else None),
           Unit_Price :=
             (if ''Unit Price'' \<in> set cs then first_valid (map Unit_Price g) else None),
           Qty := (if ''Qty'' \<in> set cs then Some (nansum (map Qty g)) else None),
           Amount := (if ''Amount'' \<in> set cs then Some (nansum (map Amount g)) else None),
           Fabric_Type := Some ''KNITTED'',
           HS_Code := Some ''61112000'',
           Country_of_Origin := Some ''India''\<rparr>)"

definition process_excel_data_3 :: "frame \<Rightarrow> error + string list \<times> frame" where
  "process_excel_data_3 df =
     (let cs = rename_columns (columns df);
          df_processed = map (rename_row (columns df)) (rows df)
      in if ''StyleID'' \<in> set cs
         then
           if label_clash (columns df) then Inl (ValueError ''duplicate column label'')
           else
             let existing_agg = filter (\<lambda>k. k \<in> set cs) agg_functions
             in if existing_agg = [] then Inl (ValueError ''nothing to aggregate'')
                else Inr ([],
                  \<lparr>columns = ''StyleID'' # existing_agg @ required_columns,
                   rows = map (agg_group_3 cs df_processed)
                            (group_keys (map StyleID df_processed))\<rparr>)
         else Inr ([''StyleID column not found in the Excel file''],
                \<lparr>columns = cs, rows = df_processed\<rparr>))"

section \<open>3app.py: generate_proforma_invoice\<close>

text \<open>The conversion of a number to words is the library function \<open>num2words\<close>; it is a
  parameter of the model, \<open>None\<close> standing for a call that raises. The function reads the
  clock twice: for the default PI number and for the date in the header. The two
  readings are parameters as well.\<close>

record datetime =
  year :: nat
  month :: nat
  day :: nat
  hour :: nat
  minute :: nat
  second :: nat

definition strftime_md :: "datetime \<Rightarrow> string" where
  "strftime_md d = pad2 (month d) @ pad2 (day d)"

definition strftime_dmy :: "datetime \<Rightarrow> string" where
  "strftime_dmy d = pad2 (day d) @ ''-'' @ pad2 (month d) @ ''-'' @ str_nat (year d)"

text \<open>\<open>v or default\<close> for an optional string: \<open>None\<close> and the empty string are false.\<close>

definition or_default :: "string option \<Rightarrow> string \<Rightarrow> string" where
  "or_default v d = (case v of None \<Rightarrow> d | Some s \<Rightarrow> if s = [] then d else s)"

definition header_data_3 ::
    "string \<Rightarrow> datetime \<Rightarrow> string option \<Rightarrow> string option \<Rightarrow> (string \<times> string) list" where
  "header_data_3 pi_number now po_reference shipment_date =
     [(''Supplier Name'', ''No. & date of PI''),
      (''SAR APPARELS INDIA PVT.LTD.'', pi_number @ '' Dt. '' @ strftime_dmy now),
      (''ADDRESS : 6, Picaso Bithi, KOLKATA - 700017.'',
         ''Landmark order Reference: '' @ or_default po_reference ''CPO/47062/25''),
      (''PHONE : 9874173373'', ''Buyer Name: LANDMARK GROUP''),
      (''FAX : N.A.'', ''Brand Name: Juniors''),
      ([], ''Payment Term: T/T''),
      (''Consignee:-'', []),
      (''RNA Resources Group Ltd- Landmark (Babyshop),'', ''Bank Details (Including Swift/IBAN)''),
      (''P O Box 25030, Dubai, UAE,'', '':- SAR APPARELS INDIA PVT.LTD''),
      (''Tel: 00971 4 8095500, Fax: 00971 4 8095555/66'', ''BENEFICIARY''),
      ([], ''ACCOUNT NO :- 2112819952''),
      ([], ''BANK'' @ [CHR 0x27] @ ''S NAME :- KOTAK MAHINDRA BANK LTD''),
      ([], ''BANK ADDRESS :- 2 BRABOURNE ROAD, GOVIND BHAVAN, GROUND FLOOR,''),
      ([], ''KOLKATA-700001''),
      ([], ''SWIFT CODE :- KKBKINBBCPC''),
      ([], ''BANK CODE :- 0323''),
      (''Loading Country: India'', ''L/C Advicing Bank (If Payment term LC Applicable )''),
      (''Port of loading: Mumbai'', []),
      (''Agreed Shipment Date: '' @ or_default shipment_date ''07-02-2025'', []),
      (''REMARKS if ANY:-'', []),
      (''Description of goods: Value Packs'', ''CURRENCY: USD'')]"

text \<open>The values of one row, each looked up under its label or else under its legacy
  label; a missing value or a missing column gives 0 or the empty string.\<close>

definition num_or_0 :: "rat option \<Rightarrow> rat" where
  "num_or_0 v = (case v of None \<Rightarrow> 0 | Some x \<Rightarrow> x)"

definition str_or_empty :: "string option \<Rightarrow> string" where
  "str_or_empty v = (case v of None \<Rightarrow> [] | Some s \<Rightarrow> s)"

definition qty_3 :: "string list \<Rightarrow> row \<Rightarrow> rat" where
  "qty_3 cs r =
     (if ''Qty'' \<in> set cs then num_or_0 (Qty r)
      else if ''Total Qty'' \<in> set cs then num_or_0 (Total_Qty r) else 0)"

definition price_3 :: "string list \<Rightarrow> row \<Rightarrow> rat" where
  "price_3 cs r =
     (if ''Unit Price'' \<in> set cs then num_or_0 (Unit_Price r)
      else if ''USD FOB$'' \<in> set cs then num_or_0 (USD_FOB r) else 0)"

definition given_amount_3 :: "string list \<Rightarrow> row \<Rightarrow> rat" where
  "given_amount_3 cs r =
     (if ''Amount'' \<in> set cs then num_or_0 (Amount r)
      else if ''Total Value'' \<in> set cs then num_or_0 (Total_Value r) else 0)"

text \<open>If amount is 0 but we have qty and price, calculate it.\<close>

definition amount_3 :: "string list \<Rightarrow> row \<Rightarrow> rat" where
  "amount_3 cs r =
     (if given_amount_3 cs r = 0 \<and> 0 < qty_3 cs r \<and> 0 < price_3 cs r
      then qty_3 cs r * price_3 cs r else given_amount_3 cs r)"

definition style_id_3 :: "string list \<Rightarrow> row \<Rightarrow> string" where
  "style_id_3 cs r =
     (if ''StyleID'' \<in> set cs then str_or_empty (StyleID r)
      else if ''Style'' \<in> set cs then str_or_empty (Style r) else [])"

definition description_3 :: "string list \<Rightarrow> row \<Rightarrow> string" where
  "description_3 cs r =
     (if ''Item Description'' \<in> set cs then str_or_empty (Item_Description r)
      else if ''Description'' \<in> set cs then str_or_empty (Description r) else [])"

definition composition_3 :: "string list \<Rightarrow> row \<Rightarrow> string" where
  "composition_3 cs r =
     (if ''Composition'' \<in> set cs then str_or_empty (Composition r)
      else if ''Material Composition'' \<in> set cs then str_or_empty (Material_Composition r)
      else [])"

text \<open>\<open>row.get(label, default)\<close>, with the default also for a missing value.\<close>

definition get_or :: "string list \<Rightarrow> string \<Rightarrow> string option \<Rightarrow> string \<Rightarrow> string" where
  "get_or cs label v d = (if label \<in> set cs then (case v of None \<Rightarrow> d | Some s \<Rightarrow> s) else d)"

definition table_row_3 :: "string list \<Rightarrow> row \<Rightarrow> string list" where
  "table_row_3 cs r =
     [style_id_3 cs r,
      description_3 cs r,
      get_or cs ''Fabric Type'' (Fabric_Type r) ''KNITTED'',
      replace (get_or cs ''HS Code'' (HS_Code r) ''61112000'') ''.'' [],
      composition_3 cs r,
      get_or cs ''Country of Origin'' (Country_of_Origin r) ''India'',
      (if 0 < qty_3 cs r then fmt_int_grouped (py_int (qty_3 cs r)) else []),
      (if 0 < price_3 cs r then fmt_fixed2 (price_3 cs r) else []),
      (if 0 < amount_3 cs r then fmt_fixed2 (amount_3 cs r) else [])]"

definition total_qty_3 :: "frame \<Rightarrow> rat" where
  "total_qty_3 df = sum_list (map (qty_3 (columns df)) (rows df))"

definition total_amount_3 :: "frame \<Rightarrow> rat" where
  "total_amount_3 df = sum_list (map (amount_3 (columns df)) (rows df))"

definition totals_row_3 :: "frame \<Rightarrow> string list" where
  "totals_row_3 df =
     [[], [], [], [], [], [], [], ''Total'', fmt_fixed2 (total_amount_3 df) @ ''USD'']"

text \<open>The total in words. Everything inside the \<open>try\<close> block that can raise is the call of
  \<open>num2words\<close>; the bare \<open>except\<close> catches it.\<close>

definition amount_words_3 :: "(int \<Rightarrow> string option) \<Rightarrow> rat \<Rightarrow> string" where
  "amount_words_3 num2words total_amount =
     (case num2words (py_int total_amount) of
        None \<Rightarrow> ''TOTAL AMOUNT: $'' @ fmt_grouped_fixed2 total_amount
      | Some w \<Rightarrow>
          let amount_words = replace (upper w) '' AND ZERO CENTS'' '' DOLLARS''
          in if \<not> contains amount_words ''CENTS'' \<and> \<not> contains amount_words ''DOLLARS''
             then amount_words @ '' DOLLARS'' else amount_words)"

record pdf3 =
  header_data3 :: "(string \<times> string) list"
  table_data3 :: "string list list"
  total_words3 :: string
  footer_total3 :: string

definition generate_proforma_invoice_3 ::
    "(int \<Rightarrow> string option) \<Rightarrow> datetime \<Rightarrow> datetime \<Rightarrow> frame \<Rightarrow> string option \<Rightarrow> string option
       \<Rightarrow> string option \<Rightarrow> pdf3 \<times> rat \<times> rat" where
  "generate_proforma_invoice_3 num2words now_pi now_header df pi_number po_reference
       shipment_date =
     (let pi_number' = or_default pi_number (''SAR/LG/'' @ strftime_md now_pi)
      in (\<lparr>header_data3 = header_data_3 pi_number' now_header po_reference shipment_date,
           table_data3 = table_header # map (table_row_3 (columns df)) (rows df)
                           @ [totals_row_3 df],
           total_words3 = ''TOTAL US DOLLAR '' @ amount_words_3 num2words (total_amount_3 df),
           footer_total3 = ''Total'' @ [CHR 0x0A] @ fmt_int_grouped (py_int (total_qty_3 df))\<rparr>,
          total_qty_3 df, total_amount_3 df))"


section \<open>Notions used in the statements\<close>

text \<open>The condition the specification puts on a record: its style identifier is present
  and is not the empty string.\<close>

definition nonempty_style :: "row \<Rightarrow> bool" where
  "nonempty_style r = (case Style r of None \<Rightarrow> False | Some s \<Rightarrow> s \<noteq> [])"


text \<open>A sample of what the words library returns, for the examples: the words of 0 and
  of 25, and a failure for every other number.\<close>

definition sample_num2words :: "int \<Rightarrow> string option" where
  "sample_num2words n =
     (if n = 0 then Some ''zero dollars, zero cents''
      else if n = 25 then Some ''twenty-five dollars, zero cents''
      else None)"

text \<open>The end-to-end scenario of the specification: two records of style SAV001S25 and
  one record without a style. The unit price is entered under both spellings of its
  label, so that the same rows serve under the columns of 6app/7app and of 3app.\<close>

definition scenario_row_1 :: row where
  "scenario_row_1 =
     empty_row\<lparr>Style := Some ''SAV001S25'', Description := Some ''Bodysuit'',
       Composition := Some ''100% Cotton'', USD_FOB := Some 6, USD_Fob := Some 6,
       Total_Qty := Some 4107, Total_Value := Some 24642\<rparr>"

definition scenario_row_2 :: row where
  "scenario_row_2 = scenario_row_1\<lparr>Total_Qty := Some 500, Total_Value := Some 3000\<rparr>"

definition scenario_row_3 :: row where
  "scenario_row_3 = scenario_row_1\<lparr>Style := None, Total_Qty := Some 100, Total_Value := Some 600\<rparr>"

definition scenario_frame_7 :: frame where
  "scenario_frame_7 =
     \<lparr>columns = [''Style'', ''Description'', ''Composition'', ''USD Fob$'', ''Total Qty'',
                  ''Total Value''],
      rows = [scenario_row_1, scenario_row_2, scenario_row_3]\<rparr>"

definition scenario_frame_3 :: frame where
  "scenario_frame_3 =
     \<lparr>columns = [''Style'', ''Description'', ''Composition'', ''USD FOB$'', ''Total Qty'',
                  ''Total Value''],
      rows = [scenario_row_1, scenario_row_2, scenario_row_3]\<rparr>"

definition scenario_out_7 :: frame where
  "scenario_out_7 =
     \<lparr>columns = [''Style'', ''Description'', ''Composition'', ''USD Fob$'', ''Total Qty'',
                  ''Total Value''],
      rows = [empty_row\<lparr>Style := Some ''SAV001S25'', Description := Some ''Bodysuit'',
                Composition := Some ''100% Cotton'', USD_Fob := Some 6,
                Total_Qty := Some 4607, Total_Value := Some 27642\<rparr>]\<rparr>"

definition scenario_out_3 :: frame where
  "scenario_out_3 =
     \<lparr>columns = [''StyleID'', ''Item Description'', ''Composition'', ''Unit Price'', ''Qty'',
                  ''Amount'', ''Fabric Type'', ''HS Code'', ''Country of Origin''],
      rows = [empty_row\<lparr>StyleID := Some ''SAV001S25'', Item_Description := Some ''Bodysuit'',
                Composition := Some ''100% Cotton'', Unit_Price := Some 6,
                Qty := Some 4607, Amount := Some 27642, Fabric_Type := Some ''KNITTED'',
                HS_Code := Some ''61112000'', Country_of_Origin := Some ''India''\<rparr>]\<rparr>"

text \<open>A frame with a single record whose style is the empty string.\<close>

definition blank_style_frame :: frame where
  "blank_style_frame =
     \<lparr>columns = [''Style'', ''Description'', ''Composition'', ''USD Fob$'', ''Total Qty'',
                  ''Total Value''],
      rows = [empty_row\<lparr>Style := Some [], Total_Qty := Some 5, Total_Value := Some 30\<rparr>]\<rparr>"

text \<open>Two styles, entered in the order B, A; and two records of one style with the
  descriptions desc1 and desc2, once as they are and once with the first description
  missing.\<close>

definition columns_7 :: "string list" where
  "columns_7 = [''Style'', ''Description'', ''Composition'', ''USD Fob$'', ''Total Qty'',
                ''Total Value'']"

definition order_frame :: frame where
  "order_frame =
     \<lparr>columns = columns_7,
      rows = [empty_row\<lparr>Style := Some ''B'', Total_Qty := Some 1, Total_Value := Some 2\<rparr>,
              empty_row\<lparr>Style := Some ''A'', Total_Qty := Some 3, Total_Value := Some 4\<rparr>]\<rparr>"

definition order_out :: frame where
  "order_out =
     \<lparr>columns = columns_7,
      rows = [empty_row\<lparr>Style := Some ''A'', Total_Qty := Some 3, Total_Value := Some 4\<rparr>,
              empty_row\<lparr>Style := Some ''B'', Total_Qty := Some 1, Total_Value := Some 2\<rparr>]\<rparr>"

definition two_desc_frame :: frame where
  "two_desc_frame =
     \<lparr>columns = columns_7,
      rows = [empty_row\<lparr>Style := Some ''A'', Description := Some ''desc1'',
                Composition := Some ''Cotton'', USD_Fob := Some 6,
                Total_Qty := Some 1, Total_Value := Some 6\<rparr>,
              empty_row\<lparr>Style := Some ''A'', Description := Some ''desc2'',
                Composition := Some ''Wool'', USD_Fob := Some 7,
                Total_Qty := Some 2, Total_Value := Some 14\<rparr>]\<rparr>"

definition two_desc_out :: frame where
  "two_desc_out =
     \<lparr>columns = columns_7,
      rows = [empty_row\<lparr>Style := Some ''A'', Description := Some ''desc1'',
                Composition := Some ''Cotton'', USD_Fob := Some 6,
                Total_Qty := Some 3, Total_Value := Some 20\<rparr>]\<rparr>"

definition first_missing_frame :: frame where
  "first_missing_frame =
     \<lparr>columns = columns_7,
      rows = [empty_row\<lparr>Style := Some ''A'', Total_Qty := Some 1, Total_Value := Some 6\<rparr>,
              empty_row\<lparr>Style := Some ''A'', Description := Some ''desc2'',
                Composition := Some ''Wool'', USD_Fob := Some 7,
                Total_Qty := Some 2, Total_Value := Some 14\<rparr>]\<rparr>"

definition first_missing_out :: frame where
  "first_missing_out =
     \<lparr>columns = columns_7,
      rows = [empty_row\<lparr>Style := Some ''A'', Description := Some ''desc2'',
                Composition := Some ''Wool'', USD_Fob := Some 7,
                Total_Qty := Some 3, Total_Value := Some 20\<rparr>]\<rparr>"

text \<open>Inputs for the examples of the composer: three readings of the clock, two of
  them on the same day; a worksheet of 3app with one
  record of quantity 10 and unit price 2.5 and no value column; a worksheet of 3app with
  two records of one style, the first without a value; and a worksheet of 6app/7app with
  one record whose numbers are all 0.\<close>

definition sample_date :: datetime where
  "sample_date = \<lparr>year = 2024, month = 10, day = 14, hour = 9, minute = 30, second = 0\<rparr>"

definition same_date_later :: datetime where
  "same_date_later = \<lparr>year = 2024, month = 10, day = 14, hour = 17, minute = 5, second = 42\<rparr>"

definition next_date :: datetime where
  "next_date = \<lparr>year = 2024, month = 10, day = 15, hour = 9, minute = 30, second = 0\<rparr>"

definition derived_frame :: frame where
  "derived_frame =
     \<lparr>columns = [''Style'', ''USD FOB$'', ''Total Qty''],
      rows = [empty_row\<lparr>Style := Some ''A'', USD_FOB := Some (5 / 2), Total_Qty := Some 10\<rparr>]\<rparr>"

definition derived_out :: frame where
  "derived_out =
     \<lparr>columns = [''StyleID'', ''Unit Price'', ''Qty'', ''Fabric Type'', ''HS Code'',
                  ''Country of Origin''],
      rows = [empty_row\<lparr>StyleID := Some ''A'', Unit_Price := Some (5 / 2), Qty := Some 10,
                Fabric_Type := Some ''KNITTED'', HS_Code := Some ''61112000'',
                Country_of_Origin := Some ''India''\<rparr>]\<rparr>"

definition partial_amount_frame :: frame where
  "partial_amount_frame =
     \<lparr>columns = [''Style'', ''USD FOB$'', ''Total Qty'', ''Total Value''],
      rows = [empty_row\<lparr>Style := Some ''A'', USD_FOB := Some (5 / 2), Total_Qty := Some 10\<rparr>,
              empty_row\<lparr>Style := Some ''A'', USD_FOB := Some 3, Total_Qty := Some 4,
                Total_Value := Some 7\<rparr>]\<rparr>"

definition partial_amount_out :: frame where
  "partial_amount_out =
     \<lparr>columns = [''StyleID'', ''Unit Price'', ''Qty'', ''Amount'', ''Fabric Type'', ''HS Code'',
                  ''Country of Origin''],
      rows = [empty_row\<lparr>StyleID := Some ''A'', Unit_Price := Some (5 / 2), Qty := Some 14,
                Amount := Some 7, Fabric_Type := Some ''KNITTED'', HS_Code := Some ''61112000'',
                Country_of_Origin := Some ''India''\<rparr>]\<rparr>"


text \<open>Three records of one style; the first has no description and no unit price. As in
  the scenario, the unit price is entered under both spellings of its label.\<close>

definition skip_row_0 :: row where
  "skip_row_0 =
     empty_row\<lparr>Style := Some ''A'', Composition := Some ''Cotton'',
       Total_Qty := Some 1, Total_Value := Some 6\<rparr>"

definition skip_row_1 :: row where
  "skip_row_1 =
     empty_row\<lparr>Style := Some ''A'', Description := Some ''desc1'', Composition := Some ''Wool'',
       USD_FOB := Some 6, USD_Fob := Some 6, Total_Qty := Some 2, Total_Value := Some 12\<rparr>"

definition skip_row_2 :: row where
  "skip_row_2 =
     empty_row\<lparr>Style := Some ''A'', Description := Some ''desc2'', Composition := Some ''Silk'',
       USD_FOB := Some 7, USD_Fob := Some 7, Total_Qty := Some 3, Total_Value := Some 21\<rparr>"

definition skip_frame_7 :: frame where
  "skip_frame_7 = \<lparr>columns = columns_7, rows = [skip_row_0, skip_row_1, skip_row_2]\<rparr>"

definition skip_out_7 :: frame where
  "skip_out_7 =
     \<lparr>columns = columns_7,
      rows = [empty_row\<lparr>Style := Some ''A'', Description := Some ''desc1'',
                Composition := Some ''Cotton'', USD_Fob := Some 6,
                Total_Qty := Some 6, Total_Value := Some 39\<rparr>]\<rparr>"

definition skip_frame_3 :: frame where
  "skip_frame_3 =
     \<lparr>columns = [''Style'', ''Description'', ''Composition'', ''USD FOB$'', ''Total Qty'',
                  ''Total Value''],
      rows = [skip_row_0, skip_row_1, skip_row_2]\<rparr>"

definition skip_out_3 :: frame where
  "skip_out_3 =
     \<lparr>columns = [''StyleID'', ''Item Description'', ''Composition'', ''Unit Price'', ''Qty'',
                  ''Amount'', ''Fabric Type'', ''HS Code'', ''Country of Origin''],
      rows = [empty_row\<lparr>StyleID := Some ''A'', Item_Description := Some ''desc1'',
                Composition := Some ''Cotton'', Unit_Price := Some 6,
                Qty := Some 6, Amount := Some 39, Fabric_Type := Some ''KNITTED'',
                HS_Code := Some ''61112000'', Country_of_Origin := Some ''India''\<rparr>]\<rparr>"



section \<open>Grouping: the keys\<close>

lemma set_group_keys: "set (group_keys ks) = {k. Some k \<in> set ks}"
  by (force simp: group_keys_def List.map_filter_def)

lemma distinct_group_keys: "distinct (group_keys ks)"
  by (simp add: group_keys_def)

lemma sorted_group_keys: "sorted (group_keys ks)"
  by (simp add: group_keys_def)

section \<open>What process_excel_data returns\<close>

lemma process_7_Inr:
  assumes "process_excel_data_7 df = Inr out"
  shows "rows out = map (agg_group_7 (dropna_Style (rows df)))
                      (group_keys (map Style (dropna_Style (rows df))))"
    and "columns out = ''Style'' # agg_columns_7"
  using assms by (auto simp: process_excel_data_7_def Let_def split: if_splits)

lemma group_keys_dropna:
  "group_keys (map Style (dropna_Style rs)) = group_keys (map Style rs)"
proof -
  have "List.map_filter (\<lambda>k. k) (map Style (filter (\<lambda>r. Style r \<noteq> None) rs))
          = List.map_filter (\<lambda>k. k) (map Style rs)"
    by (induction rs) (auto simp: List.map_filter_def)
  then show ?thesis by (simp add: group_keys_def dropna_Style_def)
qed

lemma filter_key_dropna:
  "filter (\<lambda>r. Style r = Some k) (dropna_Style rs) = filter (\<lambda>r. Style r = Some k) rs"
  by (induction rs) (auto simp: dropna_Style_def)

lemma process_3_grouped:
  assumes "process_excel_data_3 df = Inr ([], out)"
  shows "columns out = ''StyleID'' # filter (\<lambda>k. k \<in> set (rename_columns (columns df))) agg_functions
                         @ required_columns"
    and "rows out = map (agg_group_3 (rename_columns (columns df)) (map (rename_row (columns df)) (rows df)))
                      (group_keys (map StyleID (map (rename_row (columns df)) (rows df))))"
  using assms by (auto simp: process_excel_data_3_def Let_def split: if_splits)

section \<open>C1: the sums over the records with a style identifier\<close>


lemma scenario_3: "process_excel_data_3 scenario_frame_3 = Inr ([], scenario_out_3)"
  by code_simp

text \<open>
  Claim C1 compares the sums of the aggregated rows with the sums over the records that
  have a non-empty style identifier. The comment in 6app and 7app announces that the rows
  whose Style is NaN or empty are filtered out, but \<open>dropna\<close> removes the missing cells
  only. On a worksheet whose single record has the empty string as its style, the record
  stays: \<open>process_excel_data\<close> returns it as a group of its own with its 5 pieces and 30
  dollars, while the records with a non-empty style identifier add up to 0 pieces and 0
  dollars. All numbers of this input are small integers, which float64 adds exactly.
\<close>

theorem blank_style_record_counted:
  "process_excel_data_7 blank_style_frame = Inr blank_style_frame
   \<and> map Style (rows blank_style_frame) = [Some []]
   \<and> nansum (map Total_Qty (rows blank_style_frame)) = 5
   \<and> nansum (map Total_Qty (filter nonempty_style (rows blank_style_frame))) = 0
   \<and> nansum (map Total_Value (rows blank_style_frame)) = 30
   \<and> nansum (map Total_Value (filter nonempty_style (rows blank_style_frame))) = 0"
  by code_simp

section \<open>C2: the order of the aggregated rows\<close>

lemma Style_agg_group_7 [simp]: "Style (agg_group_7 rs k) = Some k"
  by (simp add: agg_group_7_def Let_def)

lemma StyleID_agg_group_3 [simp]: "StyleID (agg_group_3 cs rs k) = Some k"
  by (simp add: agg_group_3_def Let_def)

lemma styles_7:
  assumes "process_excel_data_7 df = Inr out"
  shows "map Style (rows out) = map Some (group_keys (map Style (rows df)))"
  by (simp add: process_7_Inr(1) [OF assms] group_keys_dropna comp_def)

lemma styles_3:
  assumes "process_excel_data_3 df = Inr ([], out)"
  shows "map StyleID (rows out)
           = map Some (group_keys (map StyleID (map (rename_row (columns df)) (rows df))))"
  by (simp add: process_3_grouped(2) [OF assms] comp_def)

text \<open>
  Claim C2, as the code has it. \<open>groupby\<close> sorts its groups: the aggregated rows come in
  strictly ascending order of the style identifier, one row for every style that is
  present in the input, whatever the order of the input records. This holds for
  6app/7app and for the grouping branch of 3app.
\<close>

theorem output_order_sorted:
  "(process_excel_data_7 df7 = Inr out7 \<longrightarrow>
      (\<exists>ks. map Style (rows out7) = map Some ks \<and> sorted ks \<and> distinct ks
            \<and> set ks = {k. Some k \<in> Style ` set (rows df7)}))
   \<and> (process_excel_data_3 df3 = Inr ([], out3) \<longrightarrow>
      (\<exists>ks. map StyleID (rows out3) = map Some ks \<and> sorted ks \<and> distinct ks
            \<and> set ks = {k. Some k \<in> StyleID ` rename_row (columns df3) ` set (rows df3)}))"
proof (intro conjI impI)
  assume a: "process_excel_data_7 df7 = Inr out7"
  show "\<exists>ks. map Style (rows out7) = map Some ks \<and> sorted ks \<and> distinct ks
            \<and> set ks = {k. Some k \<in> Style ` set (rows df7)}"
    by (rule exI [of _ "group_keys (map Style (rows df7))"])
       (simp add: styles_7 [OF a] sorted_group_keys distinct_group_keys set_group_keys)
next
  assume a: "process_excel_data_3 df3 = Inr ([], out3)"
  show "\<exists>ks. map StyleID (rows out3) = map Some ks \<and> sorted ks \<and> distinct ks
            \<and> set ks = {k. Some k \<in> StyleID ` rename_row (columns df3) ` set (rows df3)}"
    by (rule exI [of _ "group_keys (map StyleID (map (rename_row (columns df3)) (rows df3)))"])
       (simp add: styles_3 [OF a] sorted_group_keys distinct_group_keys set_group_keys image_image)
qed

theorem output_order_sorted_witness:
  "process_excel_data_7 order_frame = Inr order_out
   \<and> process_excel_data_3 scenario_frame_3 = Inr ([], scenario_out_3)
   \<and> map Style (rows order_out) = map Some [''A'', ''B'']
   \<and> map StyleID (rows scenario_out_3) = map Some [''SAV001S25'']"
proof -
  have h7: "process_excel_data_7 order_frame = Inr order_out" by code_simp
  have h3: "process_excel_data_3 scenario_frame_3 = Inr ([], scenario_out_3)" by code_simp
  have s7: "map Style (rows order_out) = map Some [''A'', ''B'']" by code_simp
  have s3: "map StyleID (rows scenario_out_3) = map Some [''SAV001S25'']" by code_simp
  from output_order_sorted [of order_frame order_out scenario_frame_3 scenario_out_3] h7 h3
  have "(\<exists>ks. map Style (rows order_out) = map Some ks \<and> sorted ks \<and> distinct ks
            \<and> set ks = {k. Some k \<in> Style ` set (rows order_frame)})"
    by blast
  with h7 h3 s7 s3 show ?thesis by simp
qed

text \<open>
  The claim as the specification words it, order of first appearance, fails when the
  input is not sorted: style B is entered before style A and comes out after it.
\<close>

theorem output_order_counterexample:
  "process_excel_data_7 order_frame = Inr order_out
   \<and> map Style (rows order_frame) = [Some ''B'', Some ''A'']
   \<and> map Style (rows order_out) = [Some ''A'', Some ''B'']"
  by code_simp

section \<open>C3: records without a style\<close>

lemma dropna_idem: "dropna_Style (dropna_Style rs) = dropna_Style rs"
  by (simp add: dropna_Style_def)

lemma process_7_dropna:
  "process_excel_data_7 (df\<lparr>rows := dropna_Style (rows df)\<rparr>) = process_excel_data_7 df"
  by (simp add: process_excel_data_7_def dropna_idem)

lemma group_keys_filter_present:
  "group_keys (map key (filter (\<lambda>r. key r \<noteq> None) rs)) = group_keys (map key rs)"
proof -
  have "List.map_filter (\<lambda>k. k) (map key (filter (\<lambda>r. key r \<noteq> None) rs))
          = List.map_filter (\<lambda>k. k) (map key rs)"
    by (induction rs) (auto simp: List.map_filter_def)
  then show ?thesis by (simp add: group_keys_def)
qed

lemma filter_key_present:
  "filter (\<lambda>r. key r = Some k) (filter (\<lambda>r. key r \<noteq> None) rs) = filter (\<lambda>r. key r = Some k) rs"
  by (induction rs) auto

lemma agg_group_3_present:
  "agg_group_3 cs (filter (\<lambda>r. StyleID r \<noteq> None) rs) k = agg_group_3 cs rs k"
  by (simp only: agg_group_3_def filter_key_present [of StyleID])

lemma process_3_dropna:
  assumes "''StyleID'' \<in> set (rename_columns (columns df))"
  shows "process_excel_data_3
           (df\<lparr>rows := filter (\<lambda>r. StyleID (rename_row (columns df) r) \<noteq> None) (rows df)\<rparr>)
         = process_excel_data_3 df"
proof -
  let ?f = "rename_row (columns df)"
  have m: "map ?f (filter (\<lambda>r. StyleID (?f r) \<noteq> None) (rows df))
             = filter (\<lambda>r. StyleID r \<noteq> None) (map ?f (rows df))"
    by (simp add: filter_map comp_def)
  have k: "group_keys (map StyleID (filter (\<lambda>r. StyleID r \<noteq> None) (map ?f (rows df))))
             = group_keys (map StyleID (map ?f (rows df)))"
    by (rule group_keys_filter_present)
  have a: "agg_group_3 cs (filter (\<lambda>r. StyleID r \<noteq> None) (map ?f (rows df)))
             = agg_group_3 cs (map ?f (rows df))" for cs
    by (rule ext) (rule agg_group_3_present)
  have c: "columns (df\<lparr>rows := filter (\<lambda>r. StyleID (?f r) \<noteq> None) (rows df)\<rparr>) = columns df"
    and r: "rows (df\<lparr>rows := filter (\<lambda>r. StyleID (?f r) \<noteq> None) (rows df)\<rparr>)
              = filter (\<lambda>r. StyleID (?f r) \<noteq> None) (rows df)"
    by simp_all
  show ?thesis
    unfolding process_excel_data_3_def Let_def c r m k a
    using assms by (simp only: if_True)
qed

lemma process_3_messages:
  assumes "process_excel_data_3 df = Inr (msgs, out)"
  shows "''StyleID'' \<in> set (rename_columns (columns df)) \<Longrightarrow> msgs = []"
    and "''StyleID'' \<notin> set (rename_columns (columns df)) \<Longrightarrow>
           msgs = [''StyleID column not found in the Excel file'']
           \<and> rows out = map (rename_row (columns df)) (rows df)"
  using assms by (auto simp: process_excel_data_3_def Let_def split: if_splits)

lemma generate_6_dropna:
  "generate_proforma_invoice_6 (df\<lparr>rows := dropna_Style (rows df)\<rparr>) p d c
     = generate_proforma_invoice_6 df p d c"
  by (simp only: generate_proforma_invoice_6_def process_7_dropna)

lemma generate_7_dropna:
  "generate_html_invoice (df\<lparr>rows := dropna_Style (rows df)\<rparr>) p d c
     = generate_html_invoice df p d c"
  by (simp only: generate_html_invoice_def process_7_dropna)

text \<open>
  Claim C3, as the code has it. A record whose style cell is missing is excluded
  entirely: the aggregated frame and the composed documents of 6app and 7app are those of
  the input without such records, and no aggregated row has a missing style. The same
  holds for 3app whenever the worksheet has a style column. The exclusion is silent: the
  result carries nothing but the aggregated frame, and the list of messages of 3app is
  empty on this branch. Without a style column 3app excludes nothing: it shows one
  message and returns all records ungrouped.
\<close>

theorem missing_style_dropped_silently:
  "process_excel_data_7 (df7\<lparr>rows := filter (\<lambda>r. Style r \<noteq> None) (rows df7)\<rparr>)
     = process_excel_data_7 df7
   \<and> generate_proforma_invoice_6 (df7\<lparr>rows := filter (\<lambda>r. Style r \<noteq> None) (rows df7)\<rparr>) p d c
     = generate_proforma_invoice_6 df7 p d c
   \<and> generate_html_invoice (df7\<lparr>rows := filter (\<lambda>r. Style r \<noteq> None) (rows df7)\<rparr>) p d c
     = generate_html_invoice df7 p d c
   \<and> (process_excel_data_7 df7 = Inr out7 \<longrightarrow> (\<forall>r \<in> set (rows out7). Style r \<noteq> None))
   \<and> (''StyleID'' \<in> set (rename_columns (columns df3)) \<longrightarrow>
        process_excel_data_3
          (df3\<lparr>rows := filter (\<lambda>r. StyleID (rename_row (columns df3) r) \<noteq> None) (rows df3)\<rparr>)
        = process_excel_data_3 df3
        \<and> (process_excel_data_3 df3 = Inr (msgs, out3) \<longrightarrow>
             msgs = [] \<and> (\<forall>r \<in> set (rows out3). StyleID r \<noteq> None)))
   \<and> (''StyleID'' \<notin> set (rename_columns (columns df3)) \<longrightarrow>
        process_excel_data_3 df3 = Inr (msgs, out3) \<longrightarrow>
          msgs = [''StyleID column not found in the Excel file'']
          \<and> rows out3 = map (rename_row (columns df3)) (rows df3))"
proof -
  have s7: "\<forall>r \<in> set (rows out7). Style r \<noteq> None" if "process_excel_data_7 df7 = Inr out7"
    by (auto simp: process_7_Inr(1) [OF that])
  have s3: "msgs = [] \<and> (\<forall>r \<in> set (rows out3). StyleID r \<noteq> None)"
    if "''StyleID'' \<in> set (rename_columns (columns df3))"
      and "process_excel_data_3 df3 = Inr (msgs, out3)"
  proof -
    have m: "msgs = []" using process_3_messages(1) [OF that(2) that(1)] .
    with that(2) have "process_excel_data_3 df3 = Inr ([], out3)" by simp
    from process_3_grouped(2) [OF this] m show ?thesis by auto
  qed
  show ?thesis
    using process_7_dropna [of df7] generate_6_dropna [of df7 p d c]
      generate_7_dropna [of df7 p d c] s7 s3 process_3_dropna [of df3]
      process_3_messages(2) [of df3 msgs out3]
    unfolding dropna_Style_def by blast
qed

theorem missing_style_dropped_silently_witness:
  "process_excel_data_7
      (scenario_frame_7\<lparr>rows := filter (\<lambda>r. Style r \<noteq> None) (rows scenario_frame_7)\<rparr>)
     = Inr scenario_out_7
   \<and> ''StyleID'' \<in> set (rename_columns (columns scenario_frame_3))
   \<and> process_excel_data_3
      (scenario_frame_3\<lparr>rows := filter (\<lambda>r. StyleID (rename_row (columns scenario_frame_3) r) \<noteq> None)
         (rows scenario_frame_3)\<rparr>)
     = Inr ([], scenario_out_3)
   \<and> list_all (\<lambda>r. Style r \<noteq> None) (rows scenario_out_7)
   \<and> list_all (\<lambda>r. StyleID r \<noteq> None) (rows scenario_out_3)"
proof -
  have h7: "process_excel_data_7 scenario_frame_7 = Inr scenario_out_7" by code_simp
  have h3: "process_excel_data_3 scenario_frame_3 = Inr ([], scenario_out_3)" by code_simp
  have c3: "''StyleID'' \<in> set (rename_columns (columns scenario_frame_3))" by code_simp
  from missing_style_dropped_silently
         [of scenario_frame_7 "[]" "[]" "[]" scenario_out_7 scenario_frame_3 "[]" scenario_out_3]
       h7 h3 c3
  show ?thesis by (simp add: list_all_iff)
qed

text \<open>
  The claim as the specification words it asks for every exclusion to be reported to the
  caller. In the scenario one record has no style; the results with and without that
  record are the same, and 3app shows no message.
\<close>

theorem missing_style_report_counterexample:
  "process_excel_data_7 scenario_frame_7 = Inr scenario_out_7
   \<and> process_excel_data_7 (scenario_frame_7\<lparr>rows := [scenario_row_1, scenario_row_2]\<rparr>)
       = Inr scenario_out_7
   \<and> process_excel_data_3 scenario_frame_3 = Inr ([], scenario_out_3)
   \<and> process_excel_data_3 (scenario_frame_3\<lparr>rows := [scenario_row_1, scenario_row_2]\<rparr>)
       = Inr ([], scenario_out_3)
   \<and> Style scenario_row_3 = None"
  by code_simp

section \<open>C5: the representative values of a style\<close>

lemma first_valid_find:
  "find P xs = Some x0 \<Longrightarrow> f x0 = Some v \<Longrightarrow> first_valid (map f (filter P xs)) = Some v"
  by (induction xs) (auto split: if_splits)

lemma rows_7_member:
  assumes "process_excel_data_7 df = Inr out" and "r \<in> set (rows out)" and "Style r = Some k"
  shows "r = agg_group_7 (dropna_Style (rows df)) k"
  using assms(2,3) unfolding process_7_Inr(1) [OF assms(1)] by auto

lemma rows_3_member:
  assumes "process_excel_data_3 df = Inr ([], out)" and "r \<in> set (rows out)"
    and "StyleID r = Some k"
  shows "r = agg_group_3 (rename_columns (columns df)) (map (rename_row (columns df)) (rows df)) k"
  using assms(2,3) unfolding process_3_grouped(2) [OF assms(1)] by auto

lemma firsts_7:
  "Description (agg_group_7 (dropna_Style rs) k)
     = first_valid (map Description (filter (\<lambda>x. Style x = Some k) rs))"
  "Composition (agg_group_7 (dropna_Style rs) k)
     = first_valid (map Composition (filter (\<lambda>x. Style x = Some k) rs))"
  "USD_Fob (agg_group_7 (dropna_Style rs) k)
     = first_valid (map USD_Fob (filter (\<lambda>x. Style x = Some k) rs))"
  by (simp_all add: agg_group_7_def Let_def filter_key_dropna)

lemma firsts_3:
  "''Item Description'' \<in> set cs \<Longrightarrow> Item_Description (agg_group_3 cs rs k)
     = first_valid (map Item_Description (filter (\<lambda>x. StyleID x = Some k) rs))"
  "''Composition'' \<in> set cs \<Longrightarrow> Composition (agg_group_3 cs rs k)
     = first_valid (map Composition (filter (\<lambda>x. StyleID x = Some k) rs))"
  "''Unit Price'' \<in> set cs \<Longrightarrow> Unit_Price (agg_group_3 cs rs k)
     = first_valid (map Unit_Price (filter (\<lambda>x. StyleID x = Some k) rs))"
  by (simp_all add: agg_group_3_def Let_def)

lemma first_valid_Some_iff:
  "first_valid (map f g) = Some v \<longleftrightarrow>
     (\<exists>pre x post. g = pre @ x # post \<and> (\<forall>y \<in> set pre. f y = None) \<and> f x = Some v)"
proof (induction g)
  case Nil
  then show ?case by simp
next
  case (Cons a g)
  show ?case
  proof (cases "f a")
    case None
    have "(\<exists>pre x post. a # g = pre @ x # post \<and> (\<forall>y \<in> set pre. f y = None) \<and> f x = Some v)
          \<longleftrightarrow> (\<exists>pre x post. g = pre @ x # post \<and> (\<forall>y \<in> set pre. f y = None) \<and> f x = Some v)"
    proof
      assume "\<exists>pre x post. a # g = pre @ x # post \<and> (\<forall>y \<in> set pre. f y = None) \<and> f x = Some v"
      then obtain pre x post where d: "a # g = pre @ x # post" "\<forall>y \<in> set pre. f y = None"
        "f x = Some v" by blast
      from d(1,3) None obtain pre' where "pre = a # pre'" "g = pre' @ x # post"
        by (cases pre) auto
      with d(2,3) show "\<exists>pre x post. g = pre @ x # post \<and> (\<forall>y \<in> set pre. f y = None) \<and> f x = Some v"
        by auto
    next
      assume "\<exists>pre x post. g = pre @ x # post \<and> (\<forall>y \<in> set pre. f y = None) \<and> f x = Some v"
      then obtain pre x post where d: "g = pre @ x # post" "\<forall>y \<in> set pre. f y = None"
        "f x = Some v" by blast
      have "a # g = (a # pre) @ x # post" "\<forall>y \<in> set (a # pre). f y = None"
        using d(1,2) None by auto
      with d(3) show "\<exists>pre x post. a # g = pre @ x # post \<and> (\<forall>y \<in> set pre. f y = None) \<and> f x = Some v"
        by blast
    qed
    with None Cons show ?thesis by simp
  next
    case (Some w)
    have "(\<exists>pre x post. a # g = pre @ x # post \<and> (\<forall>y \<in> set pre. f y = None) \<and> f x = Some v)
          \<longleftrightarrow> w = v"
    proof
      assume "\<exists>pre x post. a # g = pre @ x # post \<and> (\<forall>y \<in> set pre. f y = None) \<and> f x = Some v"
      then obtain pre x post where d: "a # g = pre @ x # post" "\<forall>y \<in> set pre. f y = None"
        "f x = Some v" by blast
      show "w = v"
      proof (cases pre)
        case Nil
        with d(1,3) Some show ?thesis by simp
      next
        case (Cons b pre')
        with d(1,2) Some show ?thesis by simp
      qed
    next
      assume "w = v"
      with Some have "a # g = [] @ a # g" "\<forall>y \<in> set []. f y = None" "f a = Some v" by auto
      then show "\<exists>pre x post. a # g = pre @ x # post \<and> (\<forall>y \<in> set pre. f y = None) \<and> f x = Some v"
        by blast
    qed
    with Some show ?thesis by simp
  qed
qed

lemma first_valid_None_iff:
  "first_valid (map f g) = None \<longleftrightarrow> (\<forall>y \<in> set g. f y = None)"
proof (induction g)
  case Nil
  then show ?case by simp
next
  case (Cons a g)
  then show ?case by (cases "f a") auto
qed


text \<open>
  Claim C5, as the code has it. The description, the composition and the unit price of
  an aggregated row are, each on its own, the value of the first record of the style, in
  input order, whose cell is not missing: the aggregated cell is \<open>v\<close> exactly when the
  records of the style split into records with a missing cell, a record with the cell
  \<open>v\<close>, and the rest; it is missing exactly when the cell is missing in every record of
  the style. When the first record of the style has the cell, the aggregated row takes it
  from there. This holds for 6app/7app and, for the columns that exist, for the grouping
  branch of 3app.
\<close>

theorem first_present_representative:
  "(process_excel_data_7 df7 = Inr out7 \<longrightarrow> r7 \<in> set (rows out7) \<longrightarrow> Style r7 = Some k7 \<longrightarrow>
      (\<forall>v. Description r7 = Some v \<longleftrightarrow>
          (\<exists>pre x post. filter (\<lambda>y. Style y = Some k7) (rows df7) = pre @ x # post
             \<and> (\<forall>y \<in> set pre. Description y = None) \<and> Description x = Some v))
      \<and> (Description r7 = None \<longleftrightarrow> (\<forall>y \<in> set (filter (\<lambda>y. Style y = Some k7) (rows df7)). Description y = None))
      \<and> (\<forall>x0 post. filter (\<lambda>y. Style y = Some k7) (rows df7) = x0 # post \<longrightarrow> Description x0 \<noteq> None \<longrightarrow> Description r7 = Description x0)
      \<and> (\<forall>v. Composition r7 = Some v \<longleftrightarrow>
          (\<exists>pre x post. filter (\<lambda>y. Style y = Some k7) (rows df7) = pre @ x # post
             \<and> (\<forall>y \<in> set pre. Composition y = None) \<and> Composition x = Some v))
      \<and> (Composition r7 = None \<longleftrightarrow> (\<forall>y \<in> set (filter (\<lambda>y. Style y = Some k7) (rows df7)). Composition y = None))
      \<and> (\<forall>x0 post. filter (\<lambda>y. Style y = Some k7) (rows df7) = x0 # post \<longrightarrow> Composition x0 \<noteq> None \<longrightarrow> Composition r7 = Composition x0)
      \<and> (\<forall>v. USD_Fob r7 = Some v \<longleftrightarrow>
          (\<exists>pre x post. filter (\<lambda>y. Style y = Some k7) (rows df7) = pre @ x # post
             \<and> (\<forall>y \<in> set pre. USD_Fob y = None) \<and> USD_Fob x = Some v))
      \<and> (USD_Fob r7 = None \<longleftrightarrow> (\<forall>y \<in> set (filter (\<lambda>y. Style y = Some k7) (rows df7)). USD_Fob y = None))
      \<and> (\<forall>x0 post. filter (\<lambda>y. Style y = Some k7) (rows df7) = x0 # post \<longrightarrow> USD_Fob x0 \<noteq> None \<longrightarrow> USD_Fob r7 = USD_Fob x0))
   \<and> (process_excel_data_3 df3 = Inr ([], out3) \<longrightarrow> r3 \<in> set (rows out3) \<longrightarrow>
        StyleID r3 = Some k3 \<longrightarrow>
      (''Item Description'' \<in> set (rename_columns (columns df3)) \<longrightarrow>
         (\<forall>v. Item_Description r3 = Some v \<longleftrightarrow>
          (\<exists>pre x post. filter (\<lambda>y. StyleID y = Some k3) (map (rename_row (columns df3)) (rows df3)) = pre @ x # post
             \<and> (\<forall>y \<in> set pre. Item_Description y = None) \<and> Item_Description x = Some v))
      \<and> (Item_Description r3 = None \<longleftrightarrow> (\<forall>y \<in> set (filter (\<lambda>y. StyleID y = Some k3) (map (rename_row (columns df3)) (rows df3))). Item_Description y = None))
      \<and> (\<forall>x0 post. filter (\<lambda>y. StyleID y = Some k3) (map (rename_row (columns df3)) (rows df3)) = x0 # post \<longrightarrow> Item_Description x0 \<noteq> None \<longrightarrow> Item_Description r3 = Item_Description x0))
      \<and> (''Composition'' \<in> set (rename_columns (columns df3)) \<longrightarrow>
         (\<forall>v. Composition r3 = Some v \<longleftrightarrow>
          (\<exists>pre x post. filter (\<lambda>y. StyleID y = Some k3) (map (rename_row (columns df3)) (rows df3)) = pre @ x # post
             \<and> (\<forall>y \<in> set pre. Composition y = None) \<and> Composition x = Some v))
      \<and> (Composition r3 = None \<longleftrightarrow> (\<forall>y \<in> set (filter (\<lambda>y. StyleID y = Some k3) (map (rename_row (columns df3)) (rows df3))). Composition y = None))
      \<and> (\<forall>x0 post. filter (\<lambda>y. StyleID y = Some k3) (map (rename_row (columns df3)) (rows df3)) = x0 # post \<longrightarrow> Composition x0 \<noteq> None \<longrightarrow> Composition r3 = Composition x0))
      \<and> (''Unit Price'' \<in> set (rename_columns (columns df3)) \<longrightarrow>
         (\<forall>v. Unit_Price r3 = Some v \<longleftrightarrow>
          (\<exists>pre x post. filter (\<lambda>y. StyleID y = Some k3) (map (rename_row (columns df3)) (rows df3)) = pre @ x # post
             \<and> (\<forall>y \<in> set pre. Unit_Price y = None) \<and> Unit_Price x = Some v))
      \<and> (Unit_Price r3 = None \<longleftrightarrow> (\<forall>y \<in> set (filter (\<lambda>y. StyleID y = Some k3) (map (rename_row (columns df3)) (rows df3))). Unit_Price y = None))
      \<and> (\<forall>x0 post. filter (\<lambda>y. StyleID y = Some k3) (map (rename_row (columns df3)) (rows df3)) = x0 # post \<longrightarrow> Unit_Price x0 \<noteq> None \<longrightarrow> Unit_Price r3 = Unit_Price x0)))"
proof -
  have spec: "(\<forall>v. c = Some v \<longleftrightarrow>
          (\<exists>pre x post. g = pre @ x # post \<and> (\<forall>y \<in> set pre. f y = None) \<and> f x = Some v))
      \<and> (c = None \<longleftrightarrow> (\<forall>y \<in> set g. f y = None))
      \<and> (\<forall>x0 post. g = x0 # post \<longrightarrow> f x0 \<noteq> None \<longrightarrow> c = f x0)"
    if "c = first_valid (map f g)" for c :: "'b option" and f :: "row \<Rightarrow> 'b option" and g
  proof (intro conjI allI impI)
    fix v
    show "c = Some v \<longleftrightarrow>
          (\<exists>pre x post. g = pre @ x # post \<and> (\<forall>y \<in> set pre. f y = None) \<and> f x = Some v)"
      unfolding that by (rule first_valid_Some_iff)
    show "c = None \<longleftrightarrow> (\<forall>y \<in> set g. f y = None)"
      unfolding that by (rule first_valid_None_iff)
  next
    fix x0 post assume "g = x0 # post" "f x0 \<noteq> None"
    then show "c = f x0" unfolding that by auto
  qed
  have p7: "process_excel_data_7 df7 = Inr out7 \<longrightarrow> r7 \<in> set (rows out7) \<longrightarrow> Style r7 = Some k7 \<longrightarrow>
      (\<forall>v. Description r7 = Some v \<longleftrightarrow>
          (\<exists>pre x post. filter (\<lambda>y. Style y = Some k7) (rows df7) = pre @ x # post
             \<and> (\<forall>y \<in> set pre. Description y = None) \<and> Description x = Some v))
      \<and> (Description r7 = None \<longleftrightarrow> (\<forall>y \<in> set (filter (\<lambda>y. Style y = Some k7) (rows df7)). Description y = None))
      \<and> (\<forall>x0 post. filter (\<lambda>y. Style y = Some k7) (rows df7) = x0 # post \<longrightarrow> Description x0 \<noteq> None \<longrightarrow> Description r7 = Description x0)
      \<and> (\<forall>v. Composition r7 = Some v \<longleftrightarrow>
          (\<exists>pre x post. filter (\<lambda>y. Style y = Some k7) (rows df7) = pre @ x # post
             \<and> (\<forall>y \<in> set pre. Composition y = None) \<and> Composition x = Some v))
      \<and> (Composition r7 = None \<longleftrightarrow> (\<forall>y \<in> set (filter (\<lambda>y. Style y = Some k7) (rows df7)). Composition y = None))
      \<and> (\<forall>x0 post. filter (\<lambda>y. Style y = Some k7) (rows df7) = x0 # post \<longrightarrow> Composition x0 \<noteq> None \<longrightarrow> Composition r7 = Composition x0)
      \<and> (\<forall>v. USD_Fob r7 = Some v \<longleftrightarrow>
          (\<exists>pre x post. filter (\<lambda>y. Style y = Some k7) (rows df7) = pre @ x # post
             \<and> (\<forall>y \<in> set pre. USD_Fob y = None) \<and> USD_Fob x = Some v))
      \<and> (USD_Fob r7 = None \<longleftrightarrow> (\<forall>y \<in> set (filter (\<lambda>y. Style y = Some k7) (rows df7)). USD_Fob y = None))
      \<and> (\<forall>x0 post. filter (\<lambda>y. Style y = Some k7) (rows df7) = x0 # post \<longrightarrow> USD_Fob x0 \<noteq> None \<longrightarrow> USD_Fob r7 = USD_Fob x0)"
  proof (intro impI)
    assume a: "process_excel_data_7 df7 = Inr out7" "r7 \<in> set (rows out7)" "Style r7 = Some k7"
    note r = rows_7_member [OF a]
    have d: "Description r7 = first_valid (map Description (filter (\<lambda>y. Style y = Some k7) (rows df7)))"
      and c: "Composition r7 = first_valid (map Composition (filter (\<lambda>y. Style y = Some k7) (rows df7)))"
      and u: "USD_Fob r7 = first_valid (map USD_Fob (filter (\<lambda>y. Style y = Some k7) (rows df7)))"
      by (subst r, rule firsts_7)+
    show "(\<forall>v. Description r7 = Some v \<longleftrightarrow>
          (\<exists>pre x post. filter (\<lambda>y. Style y = Some k7) (rows df7) = pre @ x # post
             \<and> (\<forall>y \<in> set pre. Description y = None) \<and> Description x = Some v))
      \<and> (Description r7 = None \<longleftrightarrow> (\<forall>y \<in> set (filter (\<lambda>y. Style y = Some k7) (rows df7)). Description y = None))
      \<and> (\<forall>x0 post. filter (\<lambda>y. Style y = Some k7) (rows df7) = x0 # post \<longrightarrow> Description x0 \<noteq> None \<longrightarrow> Description r7 = Description x0)
      \<and> (\<forall>v. Composition r7 = Some v \<longleftrightarrow>
          (\<exists>pre x post. filter (\<lambda>y. Style y = Some k7) (rows df7) = pre @ x # post
             \<and> (\<forall>y \<in> set pre. Composition y = None) \<and> Composition x = Some v))
      \<and> (Composition r7 = None \<longleftrightarrow> (\<forall>y \<in> set (filter (\<lambda>y. Style y = Some k7) (rows df7)). Composition y = None))
      \<and> (\<forall>x0 post. filter (\<lambda>y. Style y = Some k7) (rows df7) = x0 # post \<longrightarrow> Composition x0 \<noteq> None \<longrightarrow> Composition r7 = Composition x0)
      \<and> (\<forall>v. USD_Fob r7 = Some v \<longleftrightarrow>
          (\<exists>pre x post. filter (\<lambda>y. Style y = Some k7) (rows df7) = pre @ x # post
             \<and> (\<forall>y \<in> set pre. USD_Fob y = None) \<and> USD_Fob x = Some v))
      \<and> (USD_Fob r7 = None \<longleftrightarrow> (\<forall>y \<in> set (filter (\<lambda>y. Style y = Some k7) (rows df7)). USD_Fob y = None))
      \<and> (\<forall>x0 post. filter (\<lambda>y. Style y = Some k7) (rows df7) = x0 # post \<longrightarrow> USD_Fob x0 \<noteq> None \<longrightarrow> USD_Fob r7 = USD_Fob x0)"
      using spec [OF d] spec [OF c] spec [OF u] by (elim conjE) (intro conjI, assumption+)
  qed
  have p3: "process_excel_data_3 df3 = Inr ([], out3) \<longrightarrow> r3 \<in> set (rows out3) \<longrightarrow>
        StyleID r3 = Some k3 \<longrightarrow>
      (''Item Description'' \<in> set (rename_columns (columns df3)) \<longrightarrow>
         (\<forall>v. Item_Description r3 = Some v \<longleftrightarrow>
          (\<exists>pre x post. filter (\<lambda>y. StyleID y = Some k3) (map (rename_row (columns df3)) (rows df3)) = pre @ x # post
             \<and> (\<forall>y \<in> set pre. Item_Description y = None) \<and> Item_Description x = Some v))
      \<and> (Item_Description r3 = None \<longleftrightarrow> (\<forall>y \<in> set (filter (\<lambda>y. StyleID y = Some k3) (map (rename_row (columns df3)) (rows df3))). Item_Description y = None))
      \<and> (\<forall>x0 post. filter (\<lambda>y. StyleID y = Some k3) (map (rename_row (columns df3)) (rows df3)) = x0 # post \<longrightarrow> Item_Description x0 \<noteq> None \<longrightarrow> Item_Description r3 = Item_Description x0))
      \<and> (''Composition'' \<in> set (rename_columns (columns df3)) \<longrightarrow>
         (\<forall>v. Composition r3 = Some v \<longleftrightarrow>
          (\<exists>pre x post. filter (\<lambda>y. StyleID y = Some k3) (map (rename_row (columns df3)) (rows df3)) = pre @ x # post
             \<and> (\<forall>y \<in> set pre. Composition y = None) \<and> Composition x = Some v))
      \<and> (Composition r3 = None \<longleftrightarrow> (\<forall>y \<in> set (filter (\<lambda>y. StyleID y = Some k3) (map (rename_row (columns df3)) (rows df3))). Composition y = None))
      \<and> (\<forall>x0 post. filter (\<lambda>y. StyleID y = Some k3) (map (rename_row (columns df3)) (rows df3)) = x0 # post \<longrightarrow> Composition x0 \<noteq> None \<longrightarrow> Composition r3 = Composition x0))
      \<and> (''Unit Price'' \<in> set (rename_columns (columns df3)) \<longrightarrow>
         (\<forall>v. Unit_Price r3 = Some v \<longleftrightarrow>
          (\<exists>pre x post. filter (\<lambda>y. StyleID y = Some k3) (map (rename_row (columns df3)) (rows df3)) = pre @ x # post
             \<and> (\<forall>y \<in> set pre. Unit_Price y = None) \<and> Unit_Price x = Some v))
      \<and> (Unit_Price r3 = None \<longleftrightarrow> (\<forall>y \<in> set (filter (\<lambda>y. StyleID y = Some k3) (map (rename_row (columns df3)) (rows df3))). Unit_Price y = None))
      \<and> (\<forall>x0 post. filter (\<lambda>y. StyleID y = Some k3) (map (rename_row (columns df3)) (rows df3)) = x0 # post \<longrightarrow> Unit_Price x0 \<noteq> None \<longrightarrow> Unit_Price r3 = Unit_Price x0))"
  proof (intro impI)
    assume a: "process_excel_data_3 df3 = Inr ([], out3)" "r3 \<in> set (rows out3)"
      "StyleID r3 = Some k3"
    note r = rows_3_member [OF a]
    have x: "''Item Description'' \<in> set (rename_columns (columns df3)) \<longrightarrow>
         (\<forall>v. Item_Description r3 = Some v \<longleftrightarrow>
          (\<exists>pre x post. filter (\<lambda>y. StyleID y = Some k3) (map (rename_row (columns df3)) (rows df3)) = pre @ x # post
             \<and> (\<forall>y \<in> set pre. Item_Description y = None) \<and> Item_Description x = Some v))
      \<and> (Item_Description r3 = None \<longleftrightarrow> (\<forall>y \<in> set (filter (\<lambda>y. StyleID y = Some k3) (map (rename_row (columns df3)) (rows df3))). Item_Description y = None))
      \<and> (\<forall>x0 post. filter (\<lambda>y. StyleID y = Some k3) (map (rename_row (columns df3)) (rows df3)) = x0 # post \<longrightarrow> Item_Description x0 \<noteq> None \<longrightarrow> Item_Description r3 = Item_Description x0)"
    proof
      assume "''Item Description'' \<in> set (rename_columns (columns df3))"
      then have "Item_Description r3 = first_valid (map Item_Description (filter (\<lambda>y. StyleID y = Some k3) (map (rename_row (columns df3)) (rows df3))))"
        by (subst r) (rule firsts_3)
      then show "(\<forall>v. Item_Description r3 = Some v \<longleftrightarrow>
          (\<exists>pre x post. filter (\<lambda>y. StyleID y = Some k3) (map (rename_row (columns df3)) (rows df3)) = pre @ x # post
             \<and> (\<forall>y \<in> set pre. Item_Description y = None) \<and> Item_Description x = Some v))
      \<and> (Item_Description r3 = None \<longleftrightarrow> (\<forall>y \<in> set (filter (\<lambda>y. StyleID y = Some k3) (map (rename_row (columns df3)) (rows df3))). Item_Description y = None))
      \<and> (\<forall>x0 post. filter (\<lambda>y. StyleID y = Some k3) (map (rename_row (columns df3)) (rows df3)) = x0 # post \<longrightarrow> Item_Description x0 \<noteq> None \<longrightarrow> Item_Description r3 = Item_Description x0)" by (rule spec)
    qed
    have y: "''Composition'' \<in> set (rename_columns (columns df3)) \<longrightarrow>
         (\<forall>v. Composition r3 = Some v \<longleftrightarrow>
          (\<exists>pre x post. filter (\<lambda>y. StyleID y = Some k3) (map (rename_row (columns df3)) (rows df3)) = pre @ x # post
             \<and> (\<forall>y \<in> set pre. Composition y = None) \<and> Composition x = Some v))
      \<and> (Composition r3 = None \<longleftrightarrow> (\<forall>y \<in> set (filter (\<lambda>y. StyleID y = Some k3) (map (rename_row (columns df3)) (rows df3))). Composition y = None))
      \<and> (\<forall>x0 post. filter (\<lambda>y. StyleID y = Some k3) (map (rename_row (columns df3)) (rows df3)) = x0 # post \<longrightarrow> Composition x0 \<noteq> None \<longrightarrow> Composition r3 = Composition x0)"
    proof
      assume "''Composition'' \<in> set (rename_columns (columns df3))"
      then have "Composition r3 = first_valid (map Composition (filter (\<lambda>y. StyleID y = Some k3) (map (rename_row (columns df3)) (rows df3))))"
        by (subst r) (rule firsts_3)
      then show "(\<forall>v. Composition r3 = Some v \<longleftrightarrow>
          (\<exists>pre x post. filter (\<lambda>y. StyleID y = Some k3) (map (rename_row (columns df3)) (rows df3)) = pre @ x # post
             \<and> (\<forall>y \<in> set pre. Composition y = None) \<and> Composition x = Some v))
      \<and> (Composition r3 = None \<longleftrightarrow> (\<forall>y \<in> set (filter (\<lambda>y. StyleID y = Some k3) (map (rename_row (columns df3)) (rows df3))). Composition y = None))
      \<and> (\<forall>x0 post. filter (\<lambda>y. StyleID y = Some k3) (map (rename_row (columns df3)) (rows df3)) = x0 # post \<longrightarrow> Composition x0 \<noteq> None \<longrightarrow> Composition r3 = Composition x0)" by (rule spec)
    qed
    have z: "''Unit Price'' \<in> set (rename_columns (columns df3)) \<longrightarrow>
         (\<forall>v. Unit_Price r3 = Some v \<longleftrightarrow>
          (\<exists>pre x post. filter (\<lambda>y. StyleID y = Some k3) (map (rename_row (columns df3)) (rows df3)) = pre @ x # post
             \<and> (\<forall>y \<in> set pre. Unit_Price y = None) \<and> Unit_Price x = Some v))
      \<and> (Unit_Price r3 = None \<longleftrightarrow> (\<forall>y \<in> set (filter (\<lambda>y. StyleID y = Some k3) (map (rename_row (columns df3)) (rows df3))). Unit_Price y = None))
      \<and> (\<forall>x0 post. filter (\<lambda>y. StyleID y = Some k3) (map (rename_row (columns df3)) (rows df3)) = x0 # post \<longrightarrow> Unit_Price x0 \<noteq> None \<longrightarrow> Unit_Price r3 = Unit_Price x0)"
    proof
      assume "''Unit Price'' \<in> set (rename_columns (columns df3))"
      then have "Unit_Price r3 = first_valid (map Unit_Price (filter (\<lambda>y. StyleID y = Some k3) (map (rename_row (columns df3)) (rows df3))))"
        by (subst r) (rule firsts_3)
      then show "(\<forall>v. Unit_Price r3 = Some v \<longleftrightarrow>
          (\<exists>pre x post. filter (\<lambda>y. StyleID y = Some k3) (map (rename_row (columns df3)) (rows df3)) = pre @ x # post
             \<and> (\<forall>y \<in> set pre. Unit_Price y = None) \<and> Unit_Price x = Some v))
      \<and> (Unit_Price r3 = None \<longleftrightarrow> (\<forall>y \<in> set (filter (\<lambda>y. StyleID y = Some k3) (map (rename_row (columns df3)) (rows df3))). Unit_Price y = None))
      \<and> (\<forall>x0 post. filter (\<lambda>y. StyleID y = Some k3) (map (rename_row (columns df3)) (rows df3)) = x0 # post \<longrightarrow> Unit_Price x0 \<noteq> None \<longrightarrow> Unit_Price r3 = Unit_Price x0)" by (rule spec)
    qed
    show "(''Item Description'' \<in> set (rename_columns (columns df3)) \<longrightarrow>
         (\<forall>v. Item_Description r3 = Some v \<longleftrightarrow>
          (\<exists>pre x post. filter (\<lambda>y. StyleID y = Some k3) (map (rename_row (columns df3)) (rows df3)) = pre @ x # post
             \<and> (\<forall>y \<in> set pre. Item_Description y = None) \<and> Item_Description x = Some v))
      \<and> (Item_Description r3 = None \<longleftrightarrow> (\<forall>y \<in> set (filter (\<lambda>y. StyleID y = Some k3) (map (rename_row (columns df3)) (rows df3))). Item_Description y = None))
      \<and> (\<forall>x0 post. filter (\<lambda>y. StyleID y = Some k3) (map (rename_row (columns df3)) (rows df3)) = x0 # post \<longrightarrow> Item_Description x0 \<noteq> None \<longrightarrow> Item_Description r3 = Item_Description x0))
      \<and> (''Composition'' \<in> set (rename_columns (columns df3)) \<longrightarrow>
         (\<forall>v. Composition r3 = Some v \<longleftrightarrow>
          (\<exists>pre x post. filter (\<lambda>y. StyleID y = Some k3) (map (rename_row (columns df3)) (rows df3)) = pre @ x # post
             \<and> (\<forall>y \<in> set pre. Composition y = None) \<and> Composition x = Some v))
      \<and> (Composition r3 = None \<longleftrightarrow> (\<forall>y \<in> set (filter (\<lambda>y. StyleID y = Some k3) (map (rename_row (columns df3)) (rows df3))). Composition y = None))
      \<and> (\<forall>x0 post. filter (\<lambda>y. StyleID y = Some k3) (map (rename_row (columns df3)) (rows df3)) = x0 # post \<longrightarrow> Composition x0 \<noteq> None \<longrightarrow> Composition r3 = Composition x0))
      \<and> (''Unit Price'' \<in> set (rename_columns (columns df3)) \<longrightarrow>
         (\<forall>v. Unit_Price r3 = Some v \<longleftrightarrow>
          (\<exists>pre x post. filter (\<lambda>y. StyleID y = Some k3) (map (rename_row (columns df3)) (rows df3)) = pre @ x # post
             \<and> (\<forall>y \<in> set pre. Unit_Price y = None) \<and> Unit_Price x = Some v))
      \<and> (Unit_Price r3 = None \<longleftrightarrow> (\<forall>y \<in> set (filter (\<lambda>y. StyleID y = Some k3) (map (rename_row (columns df3)) (rows df3))). Unit_Price y = None))
      \<and> (\<forall>x0 post. filter (\<lambda>y. StyleID y = Some k3) (map (rename_row (columns df3)) (rows df3)) = x0 # post \<longrightarrow> Unit_Price x0 \<noteq> None \<longrightarrow> Unit_Price r3 = Unit_Price x0))"
      by (rule conjI [OF x conjI [OF y z]])
  qed
  show ?thesis by (rule conjI [OF p7 p3])
qed

text \<open>Three records of one style, the first without a description and without a unit
  price: the aggregated row takes both from the second record and the composition from
  the first. And the example of the specification: the descriptions desc1 and desc2
  give desc1.\<close>

theorem first_present_representative_witness:
  "process_excel_data_7 skip_frame_7 = Inr skip_out_7
   \<and> hd (rows skip_out_7) \<in> set (rows skip_out_7)
   \<and> Style (hd (rows skip_out_7)) = Some ''A''
   \<and> filter (\<lambda>y. Style y = Some ''A'') (rows skip_frame_7) = [skip_row_0] @ skip_row_1 # [skip_row_2]
   \<and> Description skip_row_0 = None
   \<and> Description skip_row_1 = Some ''desc1''
   \<and> Description skip_row_2 = Some ''desc2''
   \<and> Description (hd (rows skip_out_7)) = Some ''desc1''
   \<and> Composition skip_row_0 = Some ''Cotton''
   \<and> Composition (hd (rows skip_out_7)) = Composition skip_row_0
   \<and> process_excel_data_3 skip_frame_3 = Inr ([], skip_out_3)
   \<and> hd (rows skip_out_3) \<in> set (rows skip_out_3)
   \<and> StyleID (hd (rows skip_out_3)) = Some ''A''
   \<and> ''Item Description'' \<in> set (rename_columns (columns skip_frame_3))
   \<and> ''Unit Price'' \<in> set (rename_columns (columns skip_frame_3))
   \<and> Item_Description (hd (rows skip_out_3)) = Some ''desc1''
   \<and> Unit_Price (hd (rows skip_out_3)) = Some 6
   \<and> process_excel_data_7 two_desc_frame = Inr two_desc_out
   \<and> map Description (rows two_desc_frame) = [Some ''desc1'', Some ''desc2'']
   \<and> Description (hd (rows two_desc_out)) = Description (hd (rows two_desc_frame))"
proof -
  have h7: "process_excel_data_7 skip_frame_7 = Inr skip_out_7" by code_simp
  have m7: "hd (rows skip_out_7) \<in> set (rows skip_out_7)" by code_simp
  have s7: "Style (hd (rows skip_out_7)) = Some ''A''" by code_simp
  have g7: "filter (\<lambda>y. Style y = Some ''A'') (rows skip_frame_7)
              = [skip_row_0] @ skip_row_1 # [skip_row_2]" by code_simp
  have d0: "Description skip_row_0 = None" by code_simp
  have d1: "Description skip_row_1 = Some ''desc1''" by code_simp
  have d2: "Description skip_row_2 = Some ''desc2''" by code_simp
  have c0: "Composition skip_row_0 = Some ''Cotton''" by code_simp
  note i7 = first_present_representative
              [of skip_frame_7 skip_out_7 "hd (rows skip_out_7)" "''A''"
                  skip_frame_3 skip_out_3 "hd (rows skip_out_3)" "''A''",
               THEN conjunct1, rule_format, OF h7 m7 s7]
  have e7: "Description (hd (rows skip_out_7)) = Some ''desc1''"
  proof -
    have "\<exists>pre x post. filter (\<lambda>y. Style y = Some ''A'') (rows skip_frame_7) = pre @ x # post
            \<and> (\<forall>y \<in> set pre. Description y = None) \<and> Description x = Some ''desc1''"
      using g7 d0 d1 by (intro exI [of _ "[skip_row_0]"] exI [of _ skip_row_1]
                           exI [of _ "[skip_row_2]"]) simp
    then show ?thesis by (rule i7 [THEN conjunct1, rule_format, THEN iffD2])
  qed
  have f7: "Composition (hd (rows skip_out_7)) = Composition skip_row_0"
  proof -
    have "filter (\<lambda>y. Style y = Some ''A'') (rows skip_frame_7)
            = skip_row_0 # [skip_row_1, skip_row_2]"
      using g7 by simp
    moreover have "Composition skip_row_0 \<noteq> None" using c0 by simp
    ultimately show ?thesis
      by (rule i7 [THEN conjunct2, THEN conjunct2, THEN conjunct2, THEN conjunct2,
                   THEN conjunct2, THEN conjunct1, rule_format])
  qed
  have h3: "process_excel_data_3 skip_frame_3 = Inr ([], skip_out_3)" by code_simp
  have m3: "hd (rows skip_out_3) \<in> set (rows skip_out_3)" by code_simp
  have s3: "StyleID (hd (rows skip_out_3)) = Some ''A''" by code_simp
  have cd: "''Item Description'' \<in> set (rename_columns (columns skip_frame_3))" by code_simp
  have cu: "''Unit Price'' \<in> set (rename_columns (columns skip_frame_3))" by code_simp
  have r3: "map (rename_row (columns skip_frame_3)) (rows skip_frame_3)
              = [rename_row (columns skip_frame_3) skip_row_0,
                 rename_row (columns skip_frame_3) skip_row_1,
                 rename_row (columns skip_frame_3) skip_row_2]"
    by (simp add: skip_frame_3_def)
  have g3: "filter (\<lambda>y. StyleID y = Some ''A'')
              (map (rename_row (columns skip_frame_3)) (rows skip_frame_3))
            = [rename_row (columns skip_frame_3) skip_row_0]
              @ rename_row (columns skip_frame_3) skip_row_1
              # [rename_row (columns skip_frame_3) skip_row_2]" by code_simp
  have n0: "Item_Description (rename_row (columns skip_frame_3) skip_row_0) = None" by code_simp
  have n1: "Item_Description (rename_row (columns skip_frame_3) skip_row_1) = Some ''desc1''"
    by code_simp
  have u0: "Unit_Price (rename_row (columns skip_frame_3) skip_row_0) = None" by code_simp
  have u1: "Unit_Price (rename_row (columns skip_frame_3) skip_row_1) = Some 6" by code_simp
  note i3 = first_present_representative
              [of skip_frame_7 skip_out_7 "hd (rows skip_out_7)" "''A''"
                  skip_frame_3 skip_out_3 "hd (rows skip_out_3)" "''A''",
               THEN conjunct2, rule_format, OF h3 m3 s3]
  have e3: "Item_Description (hd (rows skip_out_3)) = Some ''desc1''"
  proof -
    have "\<exists>pre x post. filter (\<lambda>y. StyleID y = Some ''A'')
              (map (rename_row (columns skip_frame_3)) (rows skip_frame_3)) = pre @ x # post
            \<and> (\<forall>y \<in> set pre. Item_Description y = None) \<and> Item_Description x = Some ''desc1''"
      using g3 n0 n1
      by (intro exI [of _ "[rename_row (columns skip_frame_3) skip_row_0]"]
                exI [of _ "rename_row (columns skip_frame_3) skip_row_1"]
                exI [of _ "[rename_row (columns skip_frame_3) skip_row_2]"]) simp
    then show ?thesis
      by (rule i3 [THEN conjunct1, rule_format, OF cd, THEN conjunct1, rule_format, THEN iffD2])
  qed
  have f3: "Unit_Price (hd (rows skip_out_3)) = Some 6"
  proof -
    have "\<exists>pre x post. filter (\<lambda>y. StyleID y = Some ''A'')
              (map (rename_row (columns skip_frame_3)) (rows skip_frame_3)) = pre @ x # post
            \<and> (\<forall>y \<in> set pre. Unit_Price y = None) \<and> Unit_Price x = Some 6"
      using g3 u0 u1
      by (intro exI [of _ "[rename_row (columns skip_frame_3) skip_row_0]"]
                exI [of _ "rename_row (columns skip_frame_3) skip_row_1"]
                exI [of _ "[rename_row (columns skip_frame_3) skip_row_2]"]) simp
    then show ?thesis
      by (rule i3 [THEN conjunct2, THEN conjunct2, rule_format, OF cu, THEN conjunct1,
                   rule_format, THEN iffD2])
  qed
  have ht: "process_excel_data_7 two_desc_frame = Inr two_desc_out" by code_simp
  have mt: "hd (rows two_desc_out) \<in> set (rows two_desc_out)" by code_simp
  have st: "Style (hd (rows two_desc_out)) = Some ''A''" by code_simp
  have dt: "map Description (rows two_desc_frame) = [Some ''desc1'', Some ''desc2'']" by code_simp
  have gt: "filter (\<lambda>y. Style y = Some ''A'') (rows two_desc_frame)
              = hd (rows two_desc_frame) # tl (rows two_desc_frame)" by code_simp
  have nt: "Description (hd (rows two_desc_frame)) \<noteq> None" by code_simp
  note it = first_present_representative
              [of two_desc_frame two_desc_out "hd (rows two_desc_out)" "''A''"
                  skip_frame_3 skip_out_3 "hd (rows skip_out_3)" "''A''",
               THEN conjunct1, rule_format, OF ht mt st]
  have et: "Description (hd (rows two_desc_out)) = Description (hd (rows two_desc_frame))"
    using gt nt by (rule it [THEN conjunct2, THEN conjunct2, THEN conjunct1, rule_format])
  from h7 m7 s7 g7 d0 d1 d2 e7 c0 f7 h3 m3 s3 cd cu e3 f3 ht dt et
  show ?thesis by (intro conjI)
qed

text \<open>
  The claim as the specification words it takes the values of the first contributing
  record. When that record has no description, composition and unit price, the
  aggregated row takes them from the second record.
\<close>

theorem first_record_representative_counterexample:
  "process_excel_data_7 first_missing_frame = Inr first_missing_out
   \<and> map Style (rows first_missing_frame) = [Some ''A'', Some ''A'']
   \<and> map Description (rows first_missing_frame) = [None, Some ''desc2'']
   \<and> map Composition (rows first_missing_frame) = [None, Some ''Wool'']
   \<and> map USD_Fob (rows first_missing_frame) = [None, Some 7]
   \<and> map Description (rows first_missing_out) = [Some ''desc2'']
   \<and> map Composition (rows first_missing_out) = [Some ''Wool'']
   \<and> map USD_Fob (rows first_missing_out) = [Some 7]"
  by code_simp

section \<open>The shape of the rendered numbers\<close>

















section \<open>What the composers return\<close>

lemma generate_6_Inr:
  assumes "process_excel_data_7 df = Inr out"
  shows "generate_proforma_invoice_6 df p d c =
           Inr \<lparr>header_data6 = header_data_6 p d c,
                table_data6 = table_header # map table_row_6 (rows out) @ [totals_row_6 (rows out)],
                total_words6 = ''TOTAL '' @ upper (number_to_words (total_amount_6 (rows out)))
                                 @ '' DOLLARS''\<rparr>"
  by (simp add: generate_proforma_invoice_6_def assms)

lemma generate_7_Inr:
  assumes "process_excel_data_7 df = Inr out"
  shows "generate_html_invoice df p d c =
           Inr \<lparr>html_pi_date = p @ '' Dt. '' @ d,
                html_order_reference = c,
                html_table_rows = map table_row_7 (rows out),
                html_total_row =
                  [''Total'', fmt_int_grouped (py_int (total_qty_7 (rows out))), [],
                   fmt_fixed2 (total_amount_7 (rows out)) @ ''USD''],
                html_total_words =
                  ''TOTAL US DOLLAR '' @ fmt_grouped_fixed2 (total_amount_7 (rows out))
                    @ '' DOLLARS''\<rparr>"
  by (simp add: generate_html_invoice_def assms)

lemma generate_3_fields:
  "header_data3 (fst (generate_proforma_invoice_3 n2w t1 t2 df pn po sd))
     = header_data_3 (or_default pn (''SAR/LG/'' @ strftime_md t1)) t2 po sd"
  "table_data3 (fst (generate_proforma_invoice_3 n2w t1 t2 df pn po sd))
     = table_header # map (table_row_3 (columns df)) (rows df) @ [totals_row_3 df]"
  "total_words3 (fst (generate_proforma_invoice_3 n2w t1 t2 df pn po sd))
     = ''TOTAL US DOLLAR '' @ amount_words_3 n2w (total_amount_3 df)"
  "footer_total3 (fst (generate_proforma_invoice_3 n2w t1 t2 df pn po sd))
     = ''Total'' @ [CHR 0x0A] @ fmt_int_grouped (py_int (total_qty_3 df))"
  "snd (generate_proforma_invoice_3 n2w t1 t2 df pn po sd) = (total_qty_3 df, total_amount_3 df)"
  by (simp_all add: generate_proforma_invoice_3_def Let_def)



section \<open>C9: a worksheet without records\<close>





section \<open>C10: the same input gives the same document\<close>

lemma strftime_samples:
  "strftime_dmy sample_date = ''14-10-2024''"
  "strftime_dmy same_date_later = ''14-10-2024''"
  "strftime_dmy next_date = ''15-10-2024''"
  by code_simp+

text \<open>
  Claim C10, as the code has it. The composer of 3app has no parameter for the invoice
  date: it prints the date of the clock in the header. With a PI number supplied, two
  runs on the same records and the same metadata give the same document and the same
  totals whenever the clock shows the same day, month and year at the header; the time
  of day and the first reading of the clock play no part. The header cell holds the
  PI number and that date. The composers of 6app and 7app read no clock: they print the
  PI number, the date and the order reference they are given.
\<close>

theorem same_inputs_same_day_same_document:
  "(pn = Some p \<longrightarrow> p \<noteq> [] \<longrightarrow> strftime_dmy t2 = strftime_dmy t2' \<longrightarrow>
      generate_proforma_invoice_3 n2w t1 t2 df pn po sd
        = generate_proforma_invoice_3 n2w t1' t2' df pn po sd)
   \<and> header_data3 (fst (generate_proforma_invoice_3 n2w t1 t2 df pn po sd)) ! 1
       = (''SAR APPARELS INDIA PVT.LTD.'',
          or_default pn (''SAR/LG/'' @ strftime_md t1) @ '' Dt. '' @ strftime_dmy t2)
   \<and> (process_excel_data_7 df7 = Inr out7 \<longrightarrow>
        (\<exists>h. generate_html_invoice df7 q d c = Inr h \<and> html_pi_date h = q @ '' Dt. '' @ d
              \<and> html_order_reference h = c)
        \<and> (\<exists>doc. generate_proforma_invoice_6 df7 q d c = Inr doc
              \<and> header_data6 doc ! 0 = (''Supplier Name No. & date of PI'', q @ '' Dt. '' @ d)
              \<and> header_data6 doc ! 2 = (''ADDRESS : 6, Picaso Bithi, KOLKATA - 700017.'',
                                         ''Landmark order Reference: '' @ c)))"
proof (intro conjI impI)
  assume "pn = Some p" "p \<noteq> []" "strftime_dmy t2 = strftime_dmy t2'"
  then show "generate_proforma_invoice_3 n2w t1 t2 df pn po sd
        = generate_proforma_invoice_3 n2w t1' t2' df pn po sd"
    by (simp add: generate_proforma_invoice_3_def header_data_3_def or_default_def Let_def)
next
  show "header_data3 (fst (generate_proforma_invoice_3 n2w t1 t2 df pn po sd)) ! 1
       = (''SAR APPARELS INDIA PVT.LTD.'',
          or_default pn (''SAR/LG/'' @ strftime_md t1) @ '' Dt. '' @ strftime_dmy t2)"
    by (simp add: generate_3_fields header_data_3_def)
next
  assume a: "process_excel_data_7 df7 = Inr out7"
  show "\<exists>h. generate_html_invoice df7 q d c = Inr h \<and> html_pi_date h = q @ '' Dt. '' @ d
              \<and> html_order_reference h = c"
    by (simp add: generate_7_Inr [OF a])
  show "\<exists>doc. generate_proforma_invoice_6 df7 q d c = Inr doc
              \<and> header_data6 doc ! 0 = (''Supplier Name No. & date of PI'', q @ '' Dt. '' @ d)
              \<and> header_data6 doc ! 2 = (''ADDRESS : 6, Picaso Bithi, KOLKATA - 700017.'',
                                         ''Landmark order Reference: '' @ c)"
    by (simp add: generate_6_Inr [OF a] header_data_6_def)
qed

text \<open>Two runs on the same day, hours apart, give the same document.\<close>

theorem same_inputs_same_day_same_document_witness:
  "Some ''SAR/LG/0148'' = Some ''SAR/LG/0148''
   \<and> ''SAR/LG/0148'' \<noteq> []
   \<and> strftime_dmy sample_date = strftime_dmy same_date_later
   \<and> minute sample_date \<noteq> minute same_date_later
   \<and> generate_proforma_invoice_3 sample_num2words sample_date sample_date scenario_out_3
         (Some ''SAR/LG/0148'') (Some ''CPO/47062/25'') (Some ''07-02-2025'')
       = generate_proforma_invoice_3 sample_num2words next_date same_date_later scenario_out_3
         (Some ''SAR/LG/0148'') (Some ''CPO/47062/25'') (Some ''07-02-2025'')"
proof -
  have n: "''SAR/LG/0148'' \<noteq> []" by simp
  have e: "strftime_dmy sample_date = strftime_dmy same_date_later"
    by (simp only: strftime_samples)
  have m: "minute sample_date \<noteq> minute same_date_later" by code_simp
  from same_inputs_same_day_same_document
         [of "Some ''SAR/LG/0148''" "''SAR/LG/0148''" sample_date same_date_later
             sample_num2words sample_date scenario_out_3 "Some ''CPO/47062/25''"
             "Some ''07-02-2025''" next_date]
       n e m
  show ?thesis by blast
qed

text \<open>
  The claim as the specification words it makes the document independent of the time of
  the run. With the same records, PI number, order reference and shipment date, the
  document of 14-10-2024 and the document of 15-10-2024 differ in the header.
\<close>

theorem clock_date_counterexample:
  "header_data3 (fst (generate_proforma_invoice_3 sample_num2words sample_date sample_date
       scenario_out_3 (Some ''SAR/LG/0148'') (Some ''CPO/47062/25'') (Some ''07-02-2025''))) ! 1
     = (''SAR APPARELS INDIA PVT.LTD.'', ''SAR/LG/0148 Dt. 14-10-2024'')
   \<and> header_data3 (fst (generate_proforma_invoice_3 sample_num2words sample_date next_date
       scenario_out_3 (Some ''SAR/LG/0148'') (Some ''CPO/47062/25'') (Some ''07-02-2025''))) ! 1
     = (''SAR APPARELS INDIA PVT.LTD.'', ''SAR/LG/0148 Dt. 15-10-2024'')
   \<and> generate_proforma_invoice_3 sample_num2words sample_date sample_date
       scenario_out_3 (Some ''SAR/LG/0148'') (Some ''CPO/47062/25'') (Some ''07-02-2025'')
     \<noteq> generate_proforma_invoice_3 sample_num2words sample_date next_date
       scenario_out_3 (Some ''SAR/LG/0148'') (Some ''CPO/47062/25'') (Some ''07-02-2025'')"
proof -
  have a: "header_data3 (fst (generate_proforma_invoice_3 sample_num2words sample_date sample_date
       scenario_out_3 (Some ''SAR/LG/0148'') (Some ''CPO/47062/25'') (Some ''07-02-2025''))) ! 1
     = (''SAR APPARELS INDIA PVT.LTD.'', ''SAR/LG/0148 Dt. 14-10-2024'')"
    by (simp add: generate_3_fields header_data_3_def or_default_def strftime_samples)
  have b: "header_data3 (fst (generate_proforma_invoice_3 sample_num2words sample_date next_date
       scenario_out_3 (Some ''SAR/LG/0148'') (Some ''CPO/47062/25'') (Some ''07-02-2025''))) ! 1
     = (''SAR APPARELS INDIA PVT.LTD.'', ''SAR/LG/0148 Dt. 15-10-2024'')"
    by (simp add: generate_3_fields header_data_3_def or_default_def strftime_samples)
  have "generate_proforma_invoice_3 sample_num2words sample_date sample_date
       scenario_out_3 (Some ''SAR/LG/0148'') (Some ''CPO/47062/25'') (Some ''07-02-2025'')
     \<noteq> generate_proforma_invoice_3 sample_num2words sample_date next_date
       scenario_out_3 (Some ''SAR/LG/0148'') (Some ''CPO/47062/25'') (Some ''07-02-2025'')"
  proof
    assume "generate_proforma_invoice_3 sample_num2words sample_date sample_date
       scenario_out_3 (Some ''SAR/LG/0148'') (Some ''CPO/47062/25'') (Some ''07-02-2025'')
     = generate_proforma_invoice_3 sample_num2words sample_date next_date
       scenario_out_3 (Some ''SAR/LG/0148'') (Some ''CPO/47062/25'') (Some ''07-02-2025'')"
    with a b show False by simp
  qed
  with a b show ?thesis by (intro conjI)
qed

section \<open>C6: the totals row\<close>










section \<open>C7: the cells of a line-item row\<close>
















end
